theory Spec2Isabelle
  imports Complex_Main
begin

section \<open>JavaScript values and strings\<close>

text \<open>
  A JavaScript string is modelled as the list of its code units (\<^typ>\<open>string\<close>); the
  model covers the code units below 256.  \<open>undefined\<close> is \<open>None\<close> of an option type,
  and so is \<open>null\<close> where a value is a string or \<open>null\<close>.  An exception is a value of
  \<open>js_error\<close>, and a computation that may throw returns a sum with the error on the left.
\<close>

text \<open>
  A JavaScript number is not-a-number, an infinity or a finite value; the two zeros are
  one value here.  The values a configuration entry holds are \<open>null\<close>, booleans, numbers,
  strings and nested objects; an object is the list of its own properties, in the order
  of their assignment.
\<close>

datatype js_number = NaN | PosInfinity | NegInfinity | Finite rat

datatype js_value =
    VNull
  | VBool bool
  | VNum js_number
  | VStr string
  | VObj "(string \<times> js_value) list"

text \<open>Truthiness, as \<open>!x\<close>, \<open>x && y\<close> and \<open>x || y\<close> test it; \<open>None\<close> is \<open>undefined\<close>.\<close>

fun truthy :: "js_value option \<Rightarrow> bool" where
  "truthy None = False"
| "truthy (Some VNull) = False"
| "truthy (Some (VBool b)) = b"
| "truthy (Some (VNum n)) = (n \<noteq> NaN \<and> n \<noteq> Finite 0)"
| "truthy (Some (VStr s)) = (s \<noteq> [])"
| "truthy (Some (VObj props)) = True"

text \<open>
  The exceptions of the program: a rejected promise of the version-control engine with
  its message, a \<open>TypeError\<close> of the runtime, and the \<open>Error\<close> objects the generation
  service throws, one constructor for each message template with the interpolated value.
\<close>

datatype js_error =
    Error string
  | TypeError string
  | Api_key_not_configured
  | Provider_not_supported js_value
  | OpenAI_api_error string
  | Anthropic_api_error string

text \<open>
  The white space of \<open>String.prototype.trim\<close> and of the regular-expression class
  \<open>\s\<close>, as far as it lies below 256: TAB, LF, VT, FF, CR, SPACE and NO-BREAK SPACE.
\<close>

definition is_space :: "char \<Rightarrow> bool" where
  "is_space c = (c \<in> {CHR 0x09, CHR 0x0A, CHR 0x0B, CHR 0x0C, CHR 0x0D, CHR 0x20, CHR 0xA0})"

definition trim :: "string \<Rightarrow> string" where
  "trim s = rev (dropWhile is_space (rev (dropWhile is_space s)))"

definition startsWith :: "string \<Rightarrow> string \<Rightarrow> bool" where
  "startsWith s p = (take (length p) s = p)"

text \<open>\<open>s.split('\n')\<close>: the pieces between the line feeds; never the empty list.\<close>

fun split_nl :: "string \<Rightarrow> string list" where
  "split_nl [] = [[]]"
| "split_nl (c # cs) =
     (let r = split_nl cs
      in if c = CHR 0x0A then [] # r else (c # hd r) # tl r)"

section \<open>The version-control service (services/git.ts)\<close>

text \<open>
  The engine (simple-git) is outside the repository: each service function takes the
  result of the engine call it awaits, a rejected promise being \<open>Inl\<close>.
\<close>

record remote =
  remote_name :: string
  refs_fetch :: string
  refs_push :: string

text \<open>
  \<open>getRemoteUrl\<close>: the body of the \<open>try\<close> block finds the first remote of the given
  name; the \<open>catch\<close> clause turns every exception into \<open>undefined\<close>.
\<close>

definition getRemoteUrl :: "js_error + remote list \<Rightarrow> string \<Rightarrow> js_error + string option" where
  "getRemoteUrl getRemotes rname =
     (case getRemotes of
        Inl e \<Rightarrow> Inr None
      | Inr remotes \<Rightarrow>
          (case find (\<lambda>r. remote_name r = rname) remotes of
             None \<Rightarrow> Inr None
           | Some remoteConfig \<Rightarrow> Inr (Some (refs_fetch remoteConfig))))"

text \<open>
  The fields of the engine's \<open>StatusResult\<close> that \<open>status()\<close> reads.  The engine
  parses the ahead and behind counts from runs of digits of the branch line, zero when
  there is none: they are natural numbers.
\<close>

record status_result =
  sr_current :: "string option"
  sr_tracking :: "string option"
  sr_modified :: "string list"
  sr_created :: "string list"
  sr_staged :: "string list"
  sr_conflicted :: "string list"
  sr_ahead :: nat
  sr_behind :: nat

record working_tree_status =
  current :: string
  tracking :: "string option"
  changed :: "string list"
  staged :: "string list"
  conflicts :: "string list"
  ahead :: int
  behind :: int

definition status :: "js_error + status_result \<Rightarrow> js_error + working_tree_status" where
  "status git_status =
     (case git_status of
        Inl e \<Rightarrow> Inl e
      | Inr st \<Rightarrow> Inr
          \<lparr> current = (case sr_current st of None \<Rightarrow> ''HEAD''
                        | Some b \<Rightarrow> if b = [] then ''HEAD'' else b),
            tracking = (case sr_tracking st of None \<Rightarrow> None
                        | Some t \<Rightarrow> if t = [] then None else Some t),
            changed = sr_modified st,
            staged = sr_created st @ sr_staged st,
            conflicts = sr_conflicted st,
            ahead = (if sr_ahead st = 0 then 0 else int (sr_ahead st)),
            behind = (if sr_behind st = 0 then 0 else int (sr_behind st)) \<rparr>)"

text \<open>\<open>isRepository\<close>: true when \<open>rev-parse --git-dir\<close> succeeds, false when it throws.\<close>

definition isRepository :: "js_error + string \<Rightarrow> bool" where
  "isRepository revparse = (case revparse of Inl e \<Rightarrow> False | Inr d \<Rightarrow> True)"

section \<open>The configuration store (services/config.ts, commands/config.ts)\<close>

text \<open>
  The store of the \<open>conf\<close> package is a JSON document: every \<open>set\<close> reads it from
  its file, changes it and writes it back serialized as JSON, and every \<open>get\<close> reads the
  file again.  The document is modelled by the map of its top-level properties.  The
  constructor's defaults are the initial store.

  Writing a value as JSON and reading it back turns the numbers that are not finite into
  \<open>null\<close> and keeps every other value.
\<close>

type_synonym config = "string \<Rightarrow> js_value option"

definition defaults :: config where
  "defaults = [''defaultBranch'' \<mapsto> VStr ''main'', ''aiProvider'' \<mapsto> VStr ''openai'',
               ''autoOpenPr'' \<mapsto> VBool False]"

fun json :: "js_value \<Rightarrow> js_value" where
  "json (VNum n) = (case n of Finite q \<Rightarrow> VNum (Finite q) | _ \<Rightarrow> VNull)"
| "json (VObj props) = VObj (map (\<lambda>(k, x). (k, json x)) props)"
| "json x = x"

definition persist :: "config \<Rightarrow> config" where
  "persist cfg = (\<lambda>k. map_option json (cfg k))"

text \<open>
  The store resolves a key as a path of the \<open>dot-prop\<close> package.  \<open>getPathSegments\<close>
  splits the key at its dots, joins a piece that ends with a backslash to the next one
  with a dot in place of the backslash, and gives the empty path when a segment is one of
  \<open>__proto__\<close>, \<open>prototype\<close> and \<open>constructor\<close>.
\<close>

fun split_dot :: "string \<Rightarrow> string list" where
  "split_dot [] = [[]]"
| "split_dot (c # cs) =
     (let r = split_dot cs
      in if c = CHR ''.'' then [] # r else (c # hd r) # tl r)"

fun join_escaped :: "string list \<Rightarrow> string list" where
  "join_escaped [] = []"
| "join_escaped [p] = [p]"
| "join_escaped (p # q # rest) =
     (if p \<noteq> [] \<and> last p = CHR 0x5C then join_escaped ((butlast p @ ''.'' @ q) # rest)
      else p # join_escaped (q # rest))"

definition disallowedKeys :: "string list" where
  "disallowedKeys = [''__proto__'', ''prototype'', ''constructor'']"

definition getPathSegments :: "string \<Rightarrow> string list" where
  "getPathSegments path =
     (let parts = join_escaped (split_dot path)
      in if list_ex (\<lambda>segment. segment \<in> set disallowedKeys) parts then [] else parts)"

text \<open>
  \<open>object[p] = value\<close> on an object: the property keeps its place when the object has
  it, and is added at the end otherwise.
\<close>

fun assign :: "(string \<times> js_value) list \<Rightarrow> string \<Rightarrow> js_value \<Rightarrow> (string \<times> js_value) list" where
  "assign [] p v = [(p, v)]"
| "assign ((k, x) # rest) p v = (if k = p then (p, v) # rest else (k, x) # assign rest p v)"

text \<open>
  The loop of \<open>dotProp.set\<close> from a nested object on: at the last segment the value is
  assigned; at a segment before it, what the property holds is replaced by an empty object
  unless it is an object, and the loop goes on inside it.  With the empty path nothing is
  assigned.
\<close>

fun setProperty :: "(string \<times> js_value) list \<Rightarrow> string list \<Rightarrow> js_value \<Rightarrow> (string \<times> js_value) list" where
  "setProperty obj [] v = obj"
| "setProperty obj [p] v = assign obj p v"
| "setProperty obj (p # q # ps) v =
     assign obj p
       (VObj (setProperty (case map_of obj p of Some (VObj child) \<Rightarrow> child | _ \<Rightarrow> []) (q # ps) v))"

definition dotProp_set :: "config \<Rightarrow> string \<Rightarrow> js_value \<Rightarrow> config" where
  "dotProp_set cfg path v =
     (case getPathSegments path of
        [] \<Rightarrow> cfg
      | [p] \<Rightarrow> cfg(p \<mapsto> v)
      | p # q # ps \<Rightarrow>
          cfg(p \<mapsto> VObj (setProperty (case cfg p of Some (VObj child) \<Rightarrow> child | _ \<Rightarrow> []) (q # ps) v)))"

text \<open>
  The loop of \<open>dotProp.get\<close>: a property that is missing gives \<open>undefined\<close>, and so
  does \<open>null\<close> before the last segment; the empty path gives \<open>undefined\<close>.  The
  properties are the own properties of objects: a read through a string, a number or a
  boolean, or of a property that an object only inherits, is outside the model and gives
  \<open>undefined\<close> here.
\<close>

fun getProperty :: "js_value \<Rightarrow> string list \<Rightarrow> js_value option" where
  "getProperty x [] = Some x"
| "getProperty (VObj obj) (p # ps) =
     (case map_of obj p of
        None \<Rightarrow> None
      | Some y \<Rightarrow> if y = VNull \<and> ps \<noteq> [] then None else getProperty y ps)"
| "getProperty x (p # ps) = None"

definition dotProp_get :: "config \<Rightarrow> string \<Rightarrow> js_value option" where
  "dotProp_get cfg path =
     (case getPathSegments path of
        [] \<Rightarrow> None
      | p # ps \<Rightarrow>
          (case cfg p of
             None \<Rightarrow> None
           | Some y \<Rightarrow> if y = VNull \<and> ps \<noteq> [] then None else getProperty y ps))"

text \<open>
  \<open>ConfigManager.set\<close> and \<open>ConfigManager.get\<close> call \<open>set\<close> and \<open>get\<close> of the
  store.  \<open>set\<close> refuses a key that starts with \<open>__internal__.\<close> and otherwise sets
  the path and writes the document; \<open>get\<close> reads the path.
\<close>

definition ConfigManager_set :: "config \<Rightarrow> string \<Rightarrow> js_value \<Rightarrow> js_error + config" where
  "ConfigManager_set cfg key v =
     (if startsWith key ''__internal__.'' then
        Inl (TypeError ''Please don't use the __internal__ key, as it's used to manage this module internal operations.'')
      else Inr (persist (dotProp_set cfg key v)))"

definition ConfigManager_get :: "config \<Rightarrow> string \<Rightarrow> js_value option" where
  "ConfigManager_get cfg key = dotProp_get cfg key"


record validation =
  valid :: bool
  errors :: "string list"

text \<open>
  \<open>validateConfig\<close>.  \<open>config.githubToken.startsWith\<close> is a method of strings only: on a
  truthy boolean, number or object the call throws a \<open>TypeError\<close>.  \<open>includes\<close>
  compares with the three strings, which no other value equals.
\<close>

definition validateConfig :: "config \<Rightarrow> js_error + validation" where
  "validateConfig cfg =
     (case (if truthy (cfg ''githubToken'')
            then (case cfg ''githubToken'' of
                    Some (VStr t) \<Rightarrow>
                      Inr (if \<not> startsWith t ''ghp_'' \<and> \<not> startsWith t ''github_pat_''
                           then [''GitHub token appears to be invalid''] else [])
                  | _ \<Rightarrow> Inl (TypeError ''config.githubToken.startsWith is not a function''))
            else Inr [])
      of Inl e \<Rightarrow> Inl e
       | Inr errors1 \<Rightarrow>
           (let errors2 = errors1 @
                  (if truthy (cfg ''aiProvider'') \<and>
                      cfg ''aiProvider'' \<notin> {Some (VStr ''openai''), Some (VStr ''anthropic''), Some (VStr ''local'')}
                   then [''AI provider must be one of: openai, anthropic, local''] else [])
            in Inr \<lparr>valid = (errors2 = []), errors = errors2\<rparr>))"

text \<open>
  \<open>setConfig(key, value)\<close> of the \<open>config set\<close> command.  The built-in \<open>Number\<close>
  conversion of a string is the parameter \<open>to_number\<close>.  The result is the store after
  the command, and what follows the write: the exception of the validation, or the warning
  lines printed.  When the store refuses the key, nothing is written and the exception is
  the store's.
\<close>

definition parseValue :: "(string \<Rightarrow> js_number) \<Rightarrow> string \<Rightarrow> js_value" where
  "parseValue to_number v =
     (if v = ''true'' then VBool True
      else if v = ''false'' then VBool False
      else if to_number v \<noteq> NaN \<and> v \<noteq> [] then VNum (to_number v)
      else VStr v)"

record set_result =
  written :: config
  warnings :: "js_error + string list"

definition setConfig :: "(string \<Rightarrow> js_number) \<Rightarrow> config \<Rightarrow> string \<Rightarrow> string \<Rightarrow> set_result" where
  "setConfig to_number cfg key v =
     (let parsedValue = parseValue to_number v
      in case ConfigManager_set cfg key parsedValue of
           Inl e \<Rightarrow> \<lparr>written = cfg, warnings = Inl e\<rparr>
         | Inr cfg' \<Rightarrow>
             \<lparr>written = cfg',
              warnings = (case validateConfig cfg' of
                            Inl e \<Rightarrow> Inl e
                          | Inr validation \<Rightarrow>
                              Inr (if \<not> valid validation then errors validation else []))\<rparr>)"

section \<open>The generation service (services/ai.ts)\<close>

record AIResponse =
  content :: string
  confidence :: rat
  suggestions :: "string list option"

definition getApiKey :: "config \<Rightarrow> js_error + js_value" where
  "getApiKey cfg =
     (case cfg ''aiApiKey'' of
        None \<Rightarrow> Inl Api_key_not_configured
      | Some k \<Rightarrow> if \<not> truthy (Some k) then Inl Api_key_not_configured else Inr k)"

definition getProvider :: "config \<Rightarrow> js_value" where
  "getProvider cfg =
     (case cfg ''aiProvider'' of
        None \<Rightarrow> VStr ''openai''
      | Some p \<Rightarrow> if truthy (Some p) then p else VStr ''openai'')"

definition getSystemPrompt :: "string \<Rightarrow> string" where
  "getSystemPrompt type =
     (if type = ''commit'' then
        ''You are an expert developer writing clear, concise git commit messages following conventional commit format. Always use the format: type(scope): description. Keep descriptions under 72 characters.''
      else if type = ''pr'' then
        ''You are an expert developer writing clear, professional pull request descriptions. Include a summary, changes made, and any testing notes.''
      else if type = ''review'' then
        ''You are an expert code reviewer. Provide constructive feedback on code quality, potential bugs, improvements, and best practices. Be specific and helpful.''
      else if type = ''issue'' then
        ''You are an expert developer creating clear, concise GitHub issue titles. Summarize the core problem or feature request in under 60 characters.''
      else ''You are an expert developer assistant.'')"

text \<open>The \<open>context\<close> argument is the pull-request title, when one is passed.\<close>

definition buildPrompt :: "string \<Rightarrow> string \<Rightarrow> string option \<Rightarrow> string" where
  "buildPrompt input type title =
     (if type = ''commit'' then
        ''Based on this git diff, generate an appropriate commit message:\<newline>\<newline>'' @ input
      else if type = ''pr'' then
        ''Based on this pull request title and diff, generate a professional PR description:\<newline>\<newline>Title: ''
          @ (case title of None \<Rightarrow> ''undefined'' | Some t \<Rightarrow> t) @ ''\<newline>\<newline>Diff:\<newline>'' @ input
      else if type = ''review'' then
        ''Review this code diff and provide constructive feedback:\<newline>\<newline>'' @ input
      else if type = ''issue'' then
        ''Based on this description, generate a clear, concise GitHub issue title:\<newline>\<newline>'' @ input
      else input)"

text \<open>
  The regular-expression replacements of \<open>parseResponse\<close>.  \<open>/^[-*]\s*/\<close> removes a
  bullet marker at the very start of the line and the white space after it.
  \<open>/^["']|["']$/g\<close> removes a quote character at the start and a quote character at the
  end of what is left.
\<close>

definition is_quote :: "char \<Rightarrow> bool" where
  "is_quote c = (c = CHR 0x22 \<or> c = CHR 0x27)"

definition strip_marker :: "string \<Rightarrow> string" where
  "strip_marker line =
     (case line of
        [] \<Rightarrow> []
      | c # cs \<Rightarrow> if c = CHR ''-'' \<or> c = CHR ''*'' then dropWhile is_space cs else line)"

definition strip_quotes :: "string \<Rightarrow> string" where
  "strip_quotes s =
     (let s1 = (if s \<noteq> [] \<and> is_quote (hd s) then tl s else s)
      in if s1 \<noteq> [] \<and> is_quote (last s1) then butlast s1 else s1)"

definition is_bullet_line :: "string \<Rightarrow> bool" where
  "is_bullet_line line = (startsWith (trim line) ''-'' \<or> startsWith (trim line) ''*'')"

definition parseResponse :: "string \<Rightarrow> string \<Rightarrow> AIResponse" where
  "parseResponse raw type =
     (let cleaned = trim raw
      in if type = ''commit'' then
           \<lparr>content = hd (split_nl cleaned), confidence = 8 / 10, suggestions = None\<rparr>
         else if type = ''pr'' then
           \<lparr>content = cleaned, confidence = 85 / 100, suggestions = None\<rparr>
         else if type = ''review'' then
           (let sugg = map (\<lambda>line. trim (strip_marker line)) (filter is_bullet_line (split_nl cleaned))
            in \<lparr>content = cleaned, confidence = 75 / 100,
                suggestions = (if length sugg > 0 then Some sugg else None)\<rparr>)
         else if type = ''issue'' then
           \<lparr>content = strip_quotes (hd (split_nl cleaned)), confidence = 8 / 10, suggestions = None\<rparr>
         else \<lparr>content = cleaned, confidence = 7 / 10, suggestions = None\<rparr>)"

text \<open>
  A generation operation posts at most one request.  \<open>backend_reply\<close> is what the
  backend answers to it: the text of the first choice (absent when there is none), or a
  failure of the call with its message.  The result of an operation is the list of the
  requests posted and the value returned or the exception thrown.
\<close>

datatype backend_reply = Reply "string option" | Failure string

record request =
  endpoint :: string
  credential :: js_value
  model :: string
  messages :: "(string \<times> string) list"

definition reply_text :: "backend_reply \<Rightarrow> string" where
  "reply_text reply = (case reply of Reply (Some t) \<Rightarrow> t | _ \<Rightarrow> [])"

definition generateWithOpenAI ::
  "config \<Rightarrow> backend_reply \<Rightarrow> string \<Rightarrow> string \<Rightarrow> string option \<Rightarrow> request list \<times> (js_error + AIResponse)" where
  "generateWithOpenAI cfg reply input type title =
     (case getApiKey cfg of
        Inl e \<Rightarrow> ([], Inl e)
      | Inr apiKey \<Rightarrow>
          (let prompt = buildPrompt input type title;
               req = \<lparr>endpoint = ''https://api.openai.com/v1/chat/completions'', credential = apiKey,
                      model = ''gpt-3.5-turbo'',
                      messages = [(''system'', getSystemPrompt type), (''user'', prompt)]\<rparr>
           in case reply of
                Failure m \<Rightarrow> ([req], Inl (OpenAI_api_error m))
              | Reply c \<Rightarrow> ([req], Inr (parseResponse (case c of None \<Rightarrow> [] | Some t \<Rightarrow> t) type))))"

definition generateWithAnthropic ::
  "config \<Rightarrow> backend_reply \<Rightarrow> string \<Rightarrow> string \<Rightarrow> string option \<Rightarrow> request list \<times> (js_error + AIResponse)" where
  "generateWithAnthropic cfg reply input type title =
     (case getApiKey cfg of
        Inl e \<Rightarrow> ([], Inl e)
      | Inr apiKey \<Rightarrow>
          (let prompt = buildPrompt input type title;
               req = \<lparr>endpoint = ''https://api.anthropic.com/v1/messages'', credential = apiKey,
                      model = ''claude-3-sonnet-20240229'',
                      messages = [(''user'', getSystemPrompt type @ ''\<newline>\<newline>'' @ prompt)]\<rparr>
           in case reply of
                Failure m \<Rightarrow> ([req], Inl (Anthropic_api_error m))
              | Reply c \<Rightarrow> ([req], Inr (parseResponse (case c of None \<Rightarrow> [] | Some t \<Rightarrow> t) type))))"

text \<open>The four operations, each with its \<open>switch (provider)\<close>.\<close>

definition generateCommitMessage :: "config \<Rightarrow> backend_reply \<Rightarrow> string \<Rightarrow> request list \<times> (js_error + AIResponse)" where
  "generateCommitMessage cfg reply diff =
     (let provider = getProvider cfg
      in if provider = VStr ''openai'' then generateWithOpenAI cfg reply diff ''commit'' None
         else if provider = VStr ''anthropic'' then generateWithAnthropic cfg reply diff ''commit'' None
         else ([], Inl (Provider_not_supported provider)))"

definition generatePRDescription :: "config \<Rightarrow> backend_reply \<Rightarrow> string \<Rightarrow> string \<Rightarrow> request list \<times> (js_error + AIResponse)" where
  "generatePRDescription cfg reply title diff =
     (let provider = getProvider cfg
      in if provider = VStr ''openai'' then generateWithOpenAI cfg reply diff ''pr'' (Some title)
         else if provider = VStr ''anthropic'' then generateWithAnthropic cfg reply diff ''pr'' (Some title)
         else ([], Inl (Provider_not_supported provider)))"

definition reviewCode :: "config \<Rightarrow> backend_reply \<Rightarrow> string \<Rightarrow> request list \<times> (js_error + AIResponse)" where
  "reviewCode cfg reply diff =
     (let provider = getProvider cfg
      in if provider = VStr ''openai'' then generateWithOpenAI cfg reply diff ''review'' None
         else if provider = VStr ''anthropic'' then generateWithAnthropic cfg reply diff ''review'' None
         else ([], Inl (Provider_not_supported provider)))"

definition generateIssueTitle :: "config \<Rightarrow> backend_reply \<Rightarrow> string \<Rightarrow> request list \<times> (js_error + AIResponse)" where
  "generateIssueTitle cfg reply description =
     (let provider = getProvider cfg
      in if provider = VStr ''openai'' then generateWithOpenAI cfg reply description ''issue'' None
         else if provider = VStr ''anthropic'' then generateWithAnthropic cfg reply description ''issue'' None
         else ([], Inl (Provider_not_supported provider)))"

section \<open>The commands (commands/pr.ts, issue.ts, commit.ts, ai.ts)\<close>

text \<open>
  A command is modelled by the list of the effects it performs, in order.  The engine is
  a snapshot of the answers it gives to the calls of the version-control service;
  \<open>eng_diff\<close> answers \<open>git.diff()\<close> and \<open>eng_diff_files\<close> answers \<open>git.diff(files)\<close>
  for the files passed.  \<open>process.exit\<close> ends the list; so does a \<open>return\<close> of the
  action.
\<close>

datatype effect =
    Console_error string
  | Console_log string
  | Uncaught js_error
  | Spinner_warn string
  | Spinner_succeed string
  | Spinner_fail string js_error
  | Process_exit nat
  | Generation_request request
  | Hosting_call string string string
  | Git_add string
  | Git_commit string
  | Open_browser string

record git_engine =
  eng_revparse :: "js_error + string"
  eng_remotes :: "js_error + remote list"
  eng_status :: "js_error + status_result"
  eng_branch_current :: "js_error + string option"
  eng_diff :: "js_error + string"
  eng_diff_files :: "js_error + string"
  eng_add :: "js_error + unit"
  eng_commit :: "js_error + string option"

definition getDiff :: "git_engine \<Rightarrow> string list option \<Rightarrow> js_error + string" where
  "getDiff g files =
     (case files of
        None \<Rightarrow> eng_diff g
      | Some fs \<Rightarrow> if length fs > 0 then eng_diff_files g else eng_diff g)"

definition getCurrentBranch :: "git_engine \<Rightarrow> js_error + string" where
  "getCurrentBranch g =
     (case eng_branch_current g of
        Inl e \<Rightarrow> Inl e
      | Inr None \<Rightarrow> Inr ''HEAD''
      | Inr (Some b) \<Rightarrow> Inr (if b = [] then ''HEAD'' else b))"

text \<open>\<open>!s\<close> for an optional string: absent or empty.\<close>

definition absent :: "string option \<Rightarrow> bool" where
  "absent s = (case s of None \<Rightarrow> True | Some t \<Rightarrow> t = [])"

subsection \<open>The remote URL pattern\<close>

text \<open>
  \<open>remoteUrl.match(/github\.com[\/:]([^\/]+)\/([^\/.]+)(\.git)?$/)\<close>.
  \<open>match_after_host\<close> matches what follows \<open>github.com\<close>: a slash or colon, the owner
  (the characters up to the next slash, at least one), a slash, the repository (the
  characters up to the next slash or dot, at least one), and then either the end of the
  string or \<open>.git\<close> and the end.  Each group can only take its longest run, so there is
  no other way to match from a given start.  \<open>match_remote\<close> takes the leftmost
  occurrence of \<open>github.com\<close> from which the rest matches, as the regular-expression
  search does; the result is the two capture groups.
\<close>

definition match_after_host :: "string \<Rightarrow> (string \<times> string) option" where
  "match_after_host t =
     (case t of
        [] \<Rightarrow> None
      | c # r \<Rightarrow>
          if c \<noteq> CHR ''/'' \<and> c \<noteq> CHR '':'' then None
          else
            (let owner = takeWhile (\<lambda>x. x \<noteq> CHR ''/'') r;
                 r1 = dropWhile (\<lambda>x. x \<noteq> CHR ''/'') r
             in if owner = [] \<or> r1 = [] then None
                else
                  (let repo = takeWhile (\<lambda>x. x \<noteq> CHR ''/'' \<and> x \<noteq> CHR ''.'') (tl r1);
                       r2 = dropWhile (\<lambda>x. x \<noteq> CHR ''/'' \<and> x \<noteq> CHR ''.'') (tl r1)
                   in if repo \<noteq> [] \<and> (r2 = [] \<or> r2 = ''.git'') then Some (owner, repo)
                      else None)))"

fun match_remote :: "string \<Rightarrow> (string \<times> string) option" where
  "match_remote [] = None"
| "match_remote (c # cs) =
     (if startsWith (c # cs) ''github.com''
      then (case match_after_host (drop 10 (c # cs)) of
              Some m \<Rightarrow> Some m
            | None \<Rightarrow> match_remote cs)
      else match_remote cs)"

subsection \<open>pr and issue\<close>

text \<open>
  The action of the \<open>pr\<close> command up to the dispatch.  The four handlers (\<open>listPRs\<close>,
  \<open>createPR\<close>, \<open>mergePR\<close>, \<open>showPR\<close>) are the parameter \<open>handler\<close>, called with the
  action, the owner and the repository; the calls of the hosting service are theirs.
\<close>

definition prCommand ::
  "git_engine \<Rightarrow> string \<Rightarrow> (string \<Rightarrow> string \<Rightarrow> string \<Rightarrow> effect list) \<Rightarrow> effect list" where
  "prCommand g action handler =
     (if \<not> isRepository (eng_revparse g) then
        [Console_error ''Not a git repository'', Process_exit 1]
      else
        (case getRemoteUrl (eng_remotes g) ''origin'' of
           Inl e \<Rightarrow> [Uncaught e, Process_exit 1]
         | Inr remoteUrl \<Rightarrow>
             if absent remoteUrl then
               [Console_error ''No remote repository configured'', Process_exit 1]
             else
               (case match_remote (case remoteUrl of Some u \<Rightarrow> u | None \<Rightarrow> []) of
                  None \<Rightarrow> [Console_error ''Invalid GitHub repository URL'', Process_exit 1]
                | Some (owner, repo) \<Rightarrow>
                    if action = ''list'' \<or> action = ''create'' \<or> action = ''merge'' \<or> action = ''show''
                    then handler action owner repo
                    else [Console_error (''Unknown action: '' @ action),
                          Console_log ''Available actions: list, create, merge, show'',
                          Process_exit 1])))"

definition issueCommand ::
  "git_engine \<Rightarrow> string \<Rightarrow> (string \<Rightarrow> string \<Rightarrow> string \<Rightarrow> effect list) \<Rightarrow> effect list" where
  "issueCommand g action handler =
     (if \<not> isRepository (eng_revparse g) then
        [Console_error ''Not a git repository'', Process_exit 1]
      else
        (case getRemoteUrl (eng_remotes g) ''origin'' of
           Inl e \<Rightarrow> [Uncaught e, Process_exit 1]
         | Inr remoteUrl \<Rightarrow>
             if absent remoteUrl then
               [Console_error ''No remote repository configured'', Process_exit 1]
             else
               (case match_remote (case remoteUrl of Some u \<Rightarrow> u | None \<Rightarrow> []) of
                  None \<Rightarrow> [Console_error ''Invalid GitHub repository URL'', Process_exit 1]
                | Some (owner, repo) \<Rightarrow>
                    if action = ''list'' \<or> action = ''create'' \<or> action = ''show''
                    then handler action owner repo
                    else [Console_error (''Unknown action: '' @ action),
                          Console_log ''Available actions: list, create, show'',
                          Process_exit 1])))"

text \<open>
  \<open>createPR\<close>.  The answers to the prompts it may show are inputs: the title typed, the
  confirmation of the generated description, the description edited, and the description
  typed.  \<open>hosting\<close> is the answer of \<open>createPullRequest\<close>: the URL of the new pull
  request or a failure.
\<close>

record pr_options =
  po_title :: "string option"
  po_body :: "string option"
  po_base :: "string option"
  po_draft :: bool
  po_ai :: bool
  po_open :: bool

record pr_answers =
  inputTitle :: string
  confirmed :: bool
  customBody :: string
  inputBody :: string

definition createPR ::
  "git_engine \<Rightarrow> config \<Rightarrow> backend_reply \<Rightarrow> (js_error + string) \<Rightarrow> string \<Rightarrow> string \<Rightarrow>
     pr_options \<Rightarrow> pr_answers \<Rightarrow> effect list" where
  "createPR g cfg reply hosting owner repo options ans =
     (case getCurrentBranch g of
        Inl e \<Rightarrow> [Uncaught e, Process_exit 1]
      | Inr currentBranch \<Rightarrow>
          (let baseBranch = (if absent (po_base options) then ''main''
                             else (case po_base options of Some b \<Rightarrow> b | None \<Rightarrow> []))
           in if currentBranch = baseBranch then
                [Console_error ''Cannot create PR from the base branch'', Process_exit 1]
              else
                (let title = (if absent (po_title options) then trim (inputTitle ans)
                              else (case po_title options of Some t \<Rightarrow> t | None \<Rightarrow> []));
                     ai_step =
                       (if absent (po_body options) \<and> po_ai options then
                          (case getDiff g None of
                             Inl e \<Rightarrow> ([Spinner_fail ''Failed to generate AI description: '' e], po_body options)
                           | Inr diff \<Rightarrow>
                               (case generatePRDescription cfg reply title diff of
                                  (reqs, Inl e) \<Rightarrow>
                                    (map Generation_request reqs
                                       @ [Spinner_fail ''Failed to generate AI description: '' e],
                                     po_body options)
                                | (reqs, Inr aiResponse) \<Rightarrow>
                                    (map Generation_request reqs
                                       @ [Spinner_succeed ''AI PR description generated''],
                                     Some (if confirmed ans then content aiResponse else customBody ans))))
                        else ([], po_body options));
                     body = (if absent (snd ai_step) then trim (inputBody ans)
                             else (case snd ai_step of Some b \<Rightarrow> b | None \<Rightarrow> []))
                 in fst ai_step @ [Hosting_call ''createPullRequest'' owner repo]
                    @ (case hosting of
                         Inl e \<Rightarrow> [Spinner_fail ''Failed to create PR: '' e, Process_exit 1]
                       | Inr url \<Rightarrow>
                           Spinner_succeed ''Pull request created successfully''
                           # (if po_open options \<or> truthy (ConfigManager_get cfg ''autoOpenPr'')
                              then [Open_browser url, Console_log ''Opened in browser'']
                              else [])))))"

subsection \<open>commit\<close>

record commit_options =
  co_message :: "string option"
  co_all :: bool
  co_amend :: bool
  co_allowEmpty :: bool
  co_ai :: bool

text \<open>
  The answers to the prompts of the \<open>commit\<close> command: the confirmation of the
  generated message, and the message typed at whichever input prompt is shown.
\<close>

record commit_answers =
  use_generated :: bool
  typed_message :: string

definition create_commit :: "git_engine \<Rightarrow> string \<Rightarrow> effect list" where
  "create_commit g message =
     (case eng_commit g of
        Inl e \<Rightarrow> [Spinner_fail ''Failed to create commit: '' e, Process_exit 1]
      | Inr commitHash \<Rightarrow> [Git_commit message, Spinner_succeed ''Commit created successfully''])"

definition commitCommand ::
  "git_engine \<Rightarrow> config \<Rightarrow> backend_reply \<Rightarrow> commit_options \<Rightarrow> commit_answers \<Rightarrow> effect list" where
  "commitCommand g cfg reply options ans =
     (if \<not> isRepository (eng_revparse g) then
        [Console_error ''Not a git repository'', Process_exit 1]
      else
        (case (if co_all options then eng_add g else Inr ()) of
           Inl e \<Rightarrow> [Uncaught e, Process_exit 1]
         | Inr u \<Rightarrow>
             (let staged_all = (if co_all options then [Git_add ''.'', Spinner_succeed ''Files staged'']
                                else [])
              in if absent (co_message options) \<and> co_ai options then
                   (case getDiff g None of
                      Inl e \<Rightarrow>
                        staged_all @ [Spinner_fail ''Failed to generate AI message: '' e]
                          @ create_commit g (trim (typed_message ans))
                    | Inr diff \<Rightarrow>
                        if trim diff = [] then staged_all @ [Spinner_warn ''No changes to commit'']
                        else
                          (case generateCommitMessage cfg reply diff of
                             (reqs, Inl e) \<Rightarrow>
                               staged_all @ map Generation_request reqs
                                 @ [Spinner_fail ''Failed to generate AI message: '' e]
                                 @ create_commit g (trim (typed_message ans))
                           | (reqs, Inr aiResponse) \<Rightarrow>
                               staged_all @ map Generation_request reqs
                                 @ [Spinner_succeed ''AI commit message generated'']
                                 @ create_commit g
                                     (if use_generated ans then content aiResponse
                                      else trim (typed_message ans))))
                 else if absent (co_message options) then
                   staged_all @ create_commit g (trim (typed_message ans))
                 else
                   staged_all @ create_commit g
                     (case co_message options of Some m \<Rightarrow> m | None \<Rightarrow> []))))"

subsection \<open>ai commit and ai review\<close>

text \<open>
  \<open>generateCommitMessage(spinner)\<close> of commands/ai.ts, the \<open>ai commit\<close> action;
  \<open>useMessage\<close> is the answer to its confirmation prompt.
\<close>

definition ai_generateCommitMessage ::
  "git_engine \<Rightarrow> config \<Rightarrow> backend_reply \<Rightarrow> bool \<Rightarrow> effect list" where
  "ai_generateCommitMessage g cfg reply useMessage =
     (case getDiff g None of
        Inl e \<Rightarrow> [Spinner_fail ''Failed to generate commit message: '' e, Process_exit 1]
      | Inr diff \<Rightarrow>
          if trim diff = [] then [Spinner_warn ''No changes to analyze'']
          else
            (case generateCommitMessage cfg reply diff of
               (reqs, Inl e) \<Rightarrow>
                 map Generation_request reqs
                   @ [Spinner_fail ''Failed to generate commit message: '' e, Process_exit 1]
             | (reqs, Inr aiResponse) \<Rightarrow>
                 map Generation_request reqs @ [Spinner_succeed ''AI commit message generated'']
                   @ (if useMessage then
                        (case eng_add g of
                           Inl e \<Rightarrow> [Spinner_fail ''Failed to generate commit message: '' e, Process_exit 1]
                         | Inr u \<Rightarrow>
                             Git_add ''.''
                             # (case eng_commit g of
                                  Inl e \<Rightarrow> [Spinner_fail ''Failed to generate commit message: '' e,
                                             Process_exit 1]
                                | Inr commitHash \<Rightarrow>
                                    [Git_commit (content aiResponse),
                                     Spinner_succeed ''Commit created successfully'']))
                      else [Console_log ''Commit cancelled''])))"

record ai_options =
  ao_file :: "string option"
  ao_diff :: bool

text \<open>\<open>reviewCode(options, spinner)\<close> of commands/ai.ts, the \<open>ai review\<close> action.\<close>

definition ai_reviewCode ::
  "git_engine \<Rightarrow> config \<Rightarrow> backend_reply \<Rightarrow> ai_options \<Rightarrow> effect list" where
  "ai_reviewCode g cfg reply options =
     (let review = (\<lambda>diff.
            if trim diff = [] then [Spinner_warn ''No code changes to review'']
            else
              (case reviewCode cfg reply diff of
                 (reqs, Inl e) \<Rightarrow>
                   map Generation_request reqs @ [Spinner_fail ''Failed to review code: '' e, Process_exit 1]
               | (reqs, Inr aiResponse) \<Rightarrow>
                   map Generation_request reqs @ [Spinner_succeed ''Code review completed'']));
          failed = (\<lambda>e. [Spinner_fail ''Failed to review code: '' e, Process_exit 1])
      in if \<not> absent (ao_file options) then
           (case getDiff g (Some [case ao_file options of Some f \<Rightarrow> f | None \<Rightarrow> []]) of
              Inl e \<Rightarrow> failed e | Inr diff \<Rightarrow> review diff)
         else if ao_diff options then
           (case getDiff g None of Inl e \<Rightarrow> failed e | Inr diff \<Rightarrow> review diff)
         else
           (case status (eng_status g) of
              Inl e \<Rightarrow> failed e
            | Inr st \<Rightarrow>
                if length (staged st) = 0 then [Spinner_warn ''No staged changes to review'']
                else (case getDiff g (Some (staged st)) of
                        Inl e \<Rightarrow> failed e | Inr diff \<Rightarrow> review diff)))"

text \<open>The action of the \<open>ai\<close> command; the \<open>summary\<close> action is the parameter.\<close>

definition aiCommand ::
  "git_engine \<Rightarrow> config \<Rightarrow> backend_reply \<Rightarrow> string \<Rightarrow> ai_options \<Rightarrow> bool \<Rightarrow> effect list \<Rightarrow> effect list" where
  "aiCommand g cfg reply action options useMessage generateSummary =
     (if \<not> isRepository (eng_revparse g) then
        [Console_error ''Not a git repository'', Process_exit 1]
      else if action = ''commit'' then ai_generateCommitMessage g cfg reply useMessage
      else if action = ''review'' then ai_reviewCode g cfg reply options
      else if action = ''summary'' then generateSummary
      else [Console_error (''Unknown action: '' @ action),
            Console_log ''Available actions: commit, review, summary'',
            Process_exit 1])"

section \<open>Properties of the version-control service\<close>

lemma find_name_None: "(\<forall>x\<in>set rs. remote_name x \<noteq> n) \<Longrightarrow> find (\<lambda>r. remote_name r = n) rs = None"
  by (induction rs) auto

text \<open>
  Claim C10.  \<open>getRemoteUrl(remote)\<close> never raises: its result is always a returned
  value.  It is the fetch URL of the (first) remote of that name when one is configured,
  and \<open>undefined\<close> both when no remote has that name and when listing the remotes fails.
\<close>

theorem getRemoteUrl_never_raises:
  "(\<exists>u. getRemoteUrl g n = Inr u) \<and>
   (\<forall>rs c. g = Inr rs \<and> find (\<lambda>r. remote_name r = n) rs = Some c
        \<longrightarrow> getRemoteUrl g n = Inr (Some (refs_fetch c))) \<and>
   (\<forall>rs. g = Inr rs \<and> (\<forall>x\<in>set rs. remote_name x \<noteq> n) \<longrightarrow> getRemoteUrl g n = Inr None) \<and>
   (\<forall>e. g = Inl e \<longrightarrow> getRemoteUrl g n = Inr None)"
  by (auto simp: getRemoteUrl_def find_name_None split: sum.splits option.splits)

theorem getRemoteUrl_never_raises_witness:
  "getRemoteUrl (Inr [\<lparr>remote_name = ''upstream'', refs_fetch = ''https://example.org/u.git'', refs_push = ''''\<rparr>,
                      \<lparr>remote_name = ''origin'', refs_fetch = ''https://github.com/acme/widgets.git'', refs_push = ''''\<rparr>])
      ''origin'' = Inr (Some ''https://github.com/acme/widgets.git'') \<and>
   getRemoteUrl (Inr [\<lparr>remote_name = ''upstream'', refs_fetch = ''https://example.org/u.git'', refs_push = ''''\<rparr>])
      ''origin'' = Inr None \<and>
   getRemoteUrl (Inl (Error ''fatal: not a git repository'')) ''origin'' = Inr None"
proof -
  let ?u = "\<lparr>remote_name = ''upstream'', refs_fetch = ''https://example.org/u.git'', refs_push = ''''\<rparr>"
  let ?o = "\<lparr>remote_name = ''origin'', refs_fetch = ''https://github.com/acme/widgets.git'', refs_push = ''''\<rparr>"
  have f: "find (\<lambda>r. remote_name r = ''origin'') [?u, ?o] = Some ?o" by simp
  have n: "\<forall>x\<in>set [?u]. remote_name x \<noteq> ''origin''" by simp
  from getRemoteUrl_never_raises [of "Inr [?u, ?o]" "''origin''"] f
  have a: "getRemoteUrl (Inr [?u, ?o]) ''origin'' = Inr (Some (refs_fetch ?o))" by blast
  from getRemoteUrl_never_raises [of "Inr [?u]" "''origin''"] n
  have b: "getRemoteUrl (Inr [?u]) ''origin'' = Inr None" by blast
  from getRemoteUrl_never_raises [of "Inl (Error ''fatal: not a git repository'')" "''origin''"]
  have c: "getRemoteUrl (Inl (Error ''fatal: not a git repository'')) ''origin'' = Inr None" by blast
  from a b c show ?thesis by simp
qed

text \<open>
  Claim C2, as stated, fails: \<open>status()\<close> concatenates the engine's created and staged
  lists and removes no duplicate.  A path the engine reports in both lists (as it does for
  a newly added file in the index) is listed twice in \<open>staged\<close>.
\<close>

theorem status_staged_duplicate_counterexample:
  "status (Inr \<lparr>sr_current = Some ''main'', sr_tracking = None, sr_modified = [''b.txt''],
                 sr_created = [''a.txt''], sr_staged = [''a.txt''], sr_conflicted = [],
                 sr_ahead = 0, sr_behind = 0\<rparr>)
     = Inr \<lparr>current = ''main'', tracking = None, changed = [''b.txt''],
            staged = [''a.txt'', ''a.txt''], conflicts = [], ahead = 0, behind = 0\<rparr>
   \<and> \<not> distinct [''a.txt'', ''a.txt'']
   \<and> length [''a.txt'', ''a.txt''] \<noteq> (1::nat)"
  by (simp add: status_def)

text \<open>
  Claim C2, amended.  For every engine status, \<open>status()\<close> returns a record whose
  \<open>staged\<close> field is the created paths followed by the staged paths: its elements are
  the union of the two lists, and duplicates are kept (its length is the sum of the two
  lengths).  \<open>current\<close> is the literal \<open>HEAD\<close> whenever the engine reports no current
  branch.  In particular, for a tree with exactly one staged new file, one modified but
  unstaged file and no conflict, where the engine reports the new file both as created
  and as staged, \<open>staged\<close> lists that one path twice, \<open>changed\<close> has exactly one path,
  and \<open>conflicts\<close> is empty.
\<close>

theorem status_staged_concat:
  "\<exists>r. status (Inr st) = Inr r \<and>
       staged r = sr_created st @ sr_staged st \<and>
       set (staged r) = set (sr_created st) \<union> set (sr_staged st) \<and>
       length (staged r) = length (sr_created st) + length (sr_staged st) \<and>
       changed r = sr_modified st \<and> conflicts r = sr_conflicted st \<and>
       (sr_current st = None \<longrightarrow> current r = ''HEAD'') \<and>
       (\<forall>p q. sr_created st = [p] \<and> sr_staged st = [p] \<and> sr_modified st = [q] \<and> sr_conflicted st = []
          \<longrightarrow> staged r = [p, p] \<and> set (staged r) = {p} \<and> length (staged r) = 2 \<and>
              changed r = [q] \<and> conflicts r = [])"
  by (simp add: status_def)

theorem status_staged_concat_witness:
  "\<exists>r. status (Inr \<lparr>sr_current = None, sr_tracking = None, sr_modified = [''b.txt''],
                 sr_created = [''a.txt''], sr_staged = [''a.txt''], sr_conflicted = [],
                 sr_ahead = 0, sr_behind = 0\<rparr>) = Inr r \<and>
       current r = ''HEAD'' \<and> staged r = [''a.txt'', ''a.txt''] \<and> changed r = [''b.txt''] \<and>
       conflicts r = []"
  using status_staged_concat [of "\<lparr>sr_current = None, sr_tracking = None, sr_modified = [''b.txt''],
                 sr_created = [''a.txt''], sr_staged = [''a.txt''], sr_conflicted = [],
                 sr_ahead = 0, sr_behind = 0\<rparr>"]
  by auto

text \<open>
  Claim C9, as stated, fails: \<open>status()\<close> passes the engine's lists through, and a path
  the engine reports both as modified and as staged appears in \<open>changed\<close> and in \<open>staged\<close>.
\<close>

theorem status_lists_overlap_counterexample:
  "status (Inr \<lparr>sr_current = Some ''main'', sr_tracking = None, sr_modified = [''f.txt''],
                 sr_created = [], sr_staged = [''f.txt''], sr_conflicted = [],
                 sr_ahead = 0, sr_behind = 0\<rparr>)
     = Inr \<lparr>current = ''main'', tracking = None, changed = [''f.txt''],
            staged = [''f.txt''], conflicts = [], ahead = 0, behind = 0\<rparr>
   \<and> set [''f.txt''] \<inter> set [''f.txt''] \<noteq> ({} :: string set)"
  by (simp add: status_def)

text \<open>
  Claim C9, amended.  For every value returned by \<open>status()\<close>, the ahead and behind
  counts are the engine's counts and are non-negative.  The lists are the engine's lists:
  every path the engine reports both as modified and as created or staged is in \<open>changed\<close>
  and in \<open>staged\<close>, and likewise for the other pairs of lists; so every path is in at
  most one of \<open>staged\<close>, \<open>changed\<close> and \<open>conflicts\<close> exactly when the engine's
  modified and conflicted lists share no path with each other or with its created and
  staged lists.
\<close>

theorem status_counts_and_lists:
  assumes "status (Inr st) = Inr r"
  shows "0 \<le> ahead r \<and> 0 \<le> behind r \<and>
         ahead r = int (sr_ahead st) \<and> behind r = int (sr_behind st) \<and>
         set (staged r) \<inter> set (changed r) = (set (sr_created st) \<union> set (sr_staged st)) \<inter> set (sr_modified st) \<and>
         set (staged r) \<inter> set (conflicts r) = (set (sr_created st) \<union> set (sr_staged st)) \<inter> set (sr_conflicted st) \<and>
         set (changed r) \<inter> set (conflicts r) = set (sr_modified st) \<inter> set (sr_conflicted st) \<and>
         (\<forall>p. p \<in> set (sr_modified st) \<and> p \<in> set (sr_staged st)
              \<longrightarrow> p \<in> set (changed r) \<and> p \<in> set (staged r)) \<and>
         ((set (staged r) \<inter> set (changed r) = {} \<and>
           set (staged r) \<inter> set (conflicts r) = {} \<and>
           set (changed r) \<inter> set (conflicts r) = {})
          \<longleftrightarrow>
          (set (sr_modified st) \<inter> (set (sr_created st) \<union> set (sr_staged st)) = {} \<and>
           set (sr_conflicted st) \<inter> (set (sr_created st) \<union> set (sr_staged st)) = {} \<and>
           set (sr_modified st) \<inter> set (sr_conflicted st) = {}))"
proof -
  from assms have l: "staged r = sr_created st @ sr_staged st" "changed r = sr_modified st"
    "conflicts r = sr_conflicted st" "ahead r = int (sr_ahead st)" "behind r = int (sr_behind st)"
    by (auto simp: status_def)
  have n: "0 \<le> ahead r \<and> 0 \<le> behind r" by (simp add: l)
  have i1: "set (staged r) \<inter> set (changed r) = (set (sr_created st) \<union> set (sr_staged st)) \<inter> set (sr_modified st)"
    by (simp add: l)
  have i2: "set (staged r) \<inter> set (conflicts r) = (set (sr_created st) \<union> set (sr_staged st)) \<inter> set (sr_conflicted st)"
    by (simp add: l)
  have i3: "set (changed r) \<inter> set (conflicts r) = set (sr_modified st) \<inter> set (sr_conflicted st)"
    by (simp add: l)
  have b: "\<forall>p. p \<in> set (sr_modified st) \<and> p \<in> set (sr_staged st)
              \<longrightarrow> p \<in> set (changed r) \<and> p \<in> set (staged r)"
    by (simp add: l)
  have e: "(set (staged r) \<inter> set (changed r) = {} \<and>
           set (staged r) \<inter> set (conflicts r) = {} \<and>
           set (changed r) \<inter> set (conflicts r) = {})
          \<longleftrightarrow>
          (set (sr_modified st) \<inter> (set (sr_created st) \<union> set (sr_staged st)) = {} \<and>
           set (sr_conflicted st) \<inter> (set (sr_created st) \<union> set (sr_staged st)) = {} \<and>
           set (sr_modified st) \<inter> set (sr_conflicted st) = {})"
    unfolding i1 i2 i3 by (simp only: Int_commute)
  from n l(4,5) i1 i2 i3 b e show ?thesis by (intro conjI) (simp_all only:)
qed

theorem status_counts_and_lists_witness:
  "status (Inr \<lparr>sr_current = Some ''main'', sr_tracking = Some ''origin/main'', sr_modified = [''b.txt''],
                 sr_created = [''a.txt''], sr_staged = [''a.txt''], sr_conflicted = [],
                 sr_ahead = 2, sr_behind = 1\<rparr>)
     = Inr \<lparr>current = ''main'', tracking = Some ''origin/main'', changed = [''b.txt''],
            staged = [''a.txt'', ''a.txt''], conflicts = [], ahead = 2, behind = 1\<rparr> \<and>
   (0::int) \<le> 2 \<and> (0::int) \<le> 1 \<and>
   set [''a.txt'', ''a.txt''] \<inter> set [''b.txt''] = ({} :: string set) \<and>
   set [''a.txt'', ''a.txt''] \<inter> set [] = ({} :: string set) \<and>
   set [''b.txt''] \<inter> set [] = ({} :: string set)"
proof -
  let ?st = "\<lparr>sr_current = Some ''main'', sr_tracking = Some ''origin/main'', sr_modified = [''b.txt''],
              sr_created = [''a.txt''], sr_staged = [''a.txt''], sr_conflicted = [],
              sr_ahead = 2, sr_behind = 1\<rparr>"
  let ?r = "\<lparr>current = ''main'', tracking = Some ''origin/main'', changed = [''b.txt''],
             staged = [''a.txt'', ''a.txt''], conflicts = [], ahead = 2, behind = 1\<rparr>"
  have h: "status (Inr ?st) = Inr ?r" by (simp add: status_def)
  from status_counts_and_lists [OF h]
  have "0 \<le> ahead ?r \<and> 0 \<le> behind ?r \<and>
        set (staged ?r) \<inter> set (changed ?r) = {} \<and>
        set (staged ?r) \<inter> set (conflicts ?r) = {} \<and>
        set (changed ?r) \<inter> set (conflicts ?r) = {}" by simp
  with h show ?thesis by simp
qed

section \<open>Properties of the configuration store\<close>

subsection \<open>Paths and persistence\<close>

















subsection \<open>Validation\<close>

lemma getPathSegments_single:
  "getPathSegments k = [k] \<Longrightarrow> ConfigManager_get cfg k = cfg k"
  by (simp add: ConfigManager_get_def dotProp_get_def split: option.splits)

lemma ConfigManager_set_single:
  "getPathSegments k = [k] \<Longrightarrow> \<not> startsWith k ''__internal__.'' \<Longrightarrow>
     ConfigManager_set cfg k v = Inr (persist (cfg(k \<mapsto> v)))"
  by (simp add: ConfigManager_set_def dotProp_set_def)

lemma persist_defaults_finite:
  "persist (defaults(k \<mapsto> VNum (Finite q))) = defaults(k \<mapsto> VNum (Finite q))"
  by (auto simp: persist_def defaults_def fun_eq_iff)

text \<open>
  On a store whose hosting credential is unset or a string, \<open>validateConfig\<close> returns,
  and it reports a warning exactly when the credential is a non-empty string that starts
  with neither prefix, or the provider is a truthy value that is none of the three
  selectors.  A stored value that is falsy (the empty string, zero, \<open>false\<close>, \<open>null\<close>)
  is treated as unset.
\<close>

lemma validateConfig_string_token:
  assumes "cfg ''githubToken'' = None \<or> (\<exists>t. cfg ''githubToken'' = Some (VStr t))"
  shows "\<exists>v. validateConfig cfg = Inr v \<and> valid v = (errors v = []) \<and>
           (errors v \<noteq> [] \<longleftrightarrow>
              (\<exists>t. cfg ''githubToken'' = Some (VStr t) \<and> t \<noteq> [] \<and>
                   \<not> startsWith t ''ghp_'' \<and> \<not> startsWith t ''github_pat_'') \<or>
              (truthy (cfg ''aiProvider'') \<and>
               cfg ''aiProvider'' \<notin> {Some (VStr ''openai''), Some (VStr ''anthropic''), Some (VStr ''local'')}))"
  using assms by (auto simp: validateConfig_def Let_def)

lemma validateConfig_unset_token:
  "cfg ''githubToken'' = None \<Longrightarrow>
     \<exists>v. validateConfig cfg = Inr v \<and> ''GitHub token appears to be invalid'' \<notin> set (errors v)"
  by (auto simp: validateConfig_def Let_def)

lemma setConfig_writes_before_validation:
  "ConfigManager_set cfg k (parseValue to_number v) = Inr cfg' \<Longrightarrow>
     written (setConfig to_number cfg k v) = cfg'"
  by (simp add: setConfig_def Let_def)

text \<open>
  Claim C8, evaluated where the code departs from it.  \<open>config set githubToken 123456\<close>
  stores the number 123456 under the credential's key; the credential is then set and
  starts with neither prefix, and the validation that follows the write does not report a
  warning: it throws a \<open>TypeError\<close>.  The value stays written.
\<close>

theorem setConfig_numeric_token_throws:
  "to_number ''123456'' = Finite 123456 \<Longrightarrow>
     setConfig to_number defaults ''githubToken'' ''123456'' =
       \<lparr>written = defaults(''githubToken'' \<mapsto> VNum (Finite 123456)),
        warnings = Inl (TypeError ''config.githubToken.startsWith is not a function'')\<rparr> \<and>
     validateConfig (defaults(''githubToken'' \<mapsto> VNum (Finite 123456))) =
       Inl (TypeError ''config.githubToken.startsWith is not a function'')"
proof -
  assume n: "to_number ''123456'' = Finite 123456"
  have p: "getPathSegments ''githubToken'' = [''githubToken'']" by code_simp
  have i: "\<not> startsWith ''githubToken'' ''__internal__.''" by (simp add: startsWith_def)
  have w: "ConfigManager_set defaults ''githubToken'' (VNum (Finite 123456))
             = Inr (defaults(''githubToken'' \<mapsto> VNum (Finite 123456)))"
    by (simp add: ConfigManager_set_single [OF p i] persist_defaults_finite)
  have v: "validateConfig (defaults(''githubToken'' \<mapsto> VNum (Finite 123456))) =
             Inl (TypeError ''config.githubToken.startsWith is not a function'')"
    by (simp add: validateConfig_def)
  have pv: "parseValue to_number ''123456'' = VNum (Finite 123456)"
    using n by (simp add: parseValue_def)
  show ?thesis
    by (simp add: setConfig_def pv w v Let_def)
qed

theorem setConfig_numeric_token_throws_witness:
  "warnings (setConfig (\<lambda>s. if s = ''123456'' then Finite 123456 else NaN) defaults ''githubToken'' ''123456'') =
     Inl (TypeError ''config.githubToken.startsWith is not a function'') \<and>
   written (setConfig (\<lambda>s. if s = ''123456'' then Finite 123456 else NaN) defaults ''githubToken'' ''123456'')
     ''githubToken'' = Some (VNum (Finite 123456))"
  using setConfig_numeric_token_throws [of "\<lambda>s. if s = ''123456'' then Finite 123456 else NaN"]
  by simp

section \<open>Properties of the generation service\<close>

lemma dropWhile_all_iff: "dropWhile P xs = [] \<longleftrightarrow> (\<forall>x\<in>set (dropWhile P xs). P x)"
proof
  assume a: "\<forall>x\<in>set (dropWhile P xs). P x"
  show "dropWhile P xs = []"
  proof (rule ccontr)
    assume n: "dropWhile P xs \<noteq> []"
    then have "\<not> P (hd (dropWhile P xs))" by (rule hd_dropWhile)
    moreover from n have "hd (dropWhile P xs) \<in> set (dropWhile P xs)" by (rule hd_in_set)
    ultimately show False using a by blast
  qed
next
  assume "dropWhile P xs = []"
  then show "\<forall>x\<in>set (dropWhile P xs). P x" by (simp only: set_simps ball_empty)
qed

lemma trim_Nil_iff: "trim s = [] \<longleftrightarrow> (\<forall>c\<in>set s. is_space c)"
proof -
  have "trim s = [] \<longleftrightarrow> dropWhile is_space (rev (dropWhile is_space s)) = []"
    by (simp add: trim_def)
  also have "\<dots> \<longleftrightarrow> (\<forall>c\<in>set (dropWhile is_space s). is_space c)"
    by (simp add: dropWhile_eq_Nil_conv)
  also have "\<dots> \<longleftrightarrow> dropWhile is_space s = []"
    by (rule dropWhile_all_iff [symmetric])
  also have "\<dots> \<longleftrightarrow> (\<forall>c\<in>set s. is_space c)"
    by (simp add: dropWhile_eq_Nil_conv)
  finally show ?thesis .
qed

lemma rev_split_while: "rev zs = rev (dropWhile P zs) @ rev (takeWhile P zs)"
  by (metis rev_append takeWhile_dropWhile_id)

lemma trim_prefix: "\<exists>w. dropWhile is_space s = trim s @ w"
proof -
  have "rev (rev (dropWhile is_space s)) =
          trim s @ rev (takeWhile is_space (rev (dropWhile is_space s)))"
    unfolding trim_def by (rule rev_split_while)
  then show ?thesis by (simp only: rev_rev_ident) blast
qed

lemma hd_trim_not_space: assumes "trim s \<noteq> []" shows "\<not> is_space (hd (trim s))"
proof -
  obtain w where w: "dropWhile is_space s = trim s @ w" using trim_prefix by blast
  with assms have ne: "dropWhile is_space s \<noteq> []" by simp
  from w assms have "hd (dropWhile is_space s) = hd (trim s)" by simp
  with hd_dropWhile [OF ne] show ?thesis by simp
qed

lemma hd_split_nl: "hd (split_nl s) = takeWhile (\<lambda>c. c \<noteq> CHR 0x0A) s"
  by (induction s) (auto simp: Let_def)

lemma first_line_Nil_iff: "hd (split_nl (trim s)) = [] \<longleftrightarrow> (\<forall>c\<in>set s. is_space c)"
proof (cases "trim s = []")
  case True
  then show ?thesis using trim_Nil_iff [of s] by simp
next
  case False
  then have "\<not> is_space (hd (trim s))" by (rule hd_trim_not_space)
  then have "hd (trim s) \<noteq> CHR 0x0A" by (auto simp: is_space_def)
  with False have "takeWhile (\<lambda>c. c \<noteq> CHR 0x0A) (trim s) \<noteq> []"
    by (cases "trim s") auto
  with False show ?thesis using trim_Nil_iff [of s] by (simp add: hd_split_nl)
qed

lemma strip_quotes_Nil_iff:
  "strip_quotes l = [] \<longleftrightarrow> (length l \<le> 2 \<and> (\<forall>c\<in>set l. is_quote c))"
proof (cases l)
  case Nil
  then show ?thesis by (simp add: strip_quotes_def)
next
  case (Cons a l')
  show ?thesis
  proof (cases l' rule: rev_cases)
    case Nil
    with Cons show ?thesis by (simp add: strip_quotes_def)
  next
    case (snoc m b)
    with Cons show ?thesis
      by (cases m) (auto simp: strip_quotes_def Let_def butlast_append)
  qed
qed


lemma trim_dropWhile: "trim (dropWhile is_space s) = trim s"
  by (simp add: trim_def)

lemma marker_line_is_bullet:
  assumes "startsWith l ''-'' \<or> startsWith l ''*''"
  shows "is_bullet_line l"
proof -
  from assms obtain c cs where l: "l = c # cs" and c: "c = CHR ''-'' \<or> c = CHR ''*''"
    by (cases l) (auto simp: startsWith_def)
  from c have ns: "\<not> is_space c" by (auto simp: is_space_def)
  then have "dropWhile is_space (rev cs @ [c]) = dropWhile is_space (rev cs) @ [c]"
    by (simp add: dropWhile_append)
  with ns l have "trim l = c # rev (dropWhile is_space (rev cs))"
    by (simp add: trim_def)
  with c show ?thesis by (auto simp: is_bullet_line_def startsWith_def)
qed

lemma strip_marker_of_marker_line:
  "startsWith l ''-'' \<or> startsWith l ''*'' \<Longrightarrow> trim (strip_marker l) = trim (tl l)"
  by (cases l) (auto simp: startsWith_def strip_marker_def trim_dropWhile)

lemma review_suggestions_plain:
  assumes "\<forall>l\<in>set ls. is_bullet_line l \<longrightarrow> startsWith l ''-'' \<or> startsWith l ''*''"
  shows "map (\<lambda>line. trim (strip_marker line)) (filter is_bullet_line ls) =
         map (\<lambda>l. trim (tl l)) (filter (\<lambda>l. startsWith l ''-'' \<or> startsWith l ''*'') ls)"
  using assms
proof (induction ls)
  case Nil
  then show ?case by simp
next
  case (Cons l ls)
  then show ?case
    using marker_line_is_bullet [of l] strip_marker_of_marker_line [of l] by auto
qed

text \<open>
  Claim C4, amended.  For every raw backend response: for the commit intent the primary
  text is the first line of the trimmed response; for the issue intent it is that first
  line with a quote character removed at its start and at its end; for the pr intent and
  the review intent it is the trimmed response.  For the review intent, when every bullet
  line of the trimmed response has its marker as first character, the suggestions list
  contains, in order, each line beginning with \<open>-\<close> or \<open>*\<close> with the marker stripped
  and the rest trimmed (and is absent when there is no such line); so a response with the
  lines \<open>- fix null check\<close> and \<open>* add test\<close> yields exactly the two suggestions
  \<open>fix null check\<close> and \<open>add test\<close>.
\<close>

theorem parseResponse_by_intent:
  "content (parseResponse raw ''commit'') = takeWhile (\<lambda>c. c \<noteq> CHR 0x0A) (trim raw) \<and>
   content (parseResponse raw ''issue'') = strip_quotes (takeWhile (\<lambda>c. c \<noteq> CHR 0x0A) (trim raw)) \<and>
   content (parseResponse raw ''pr'') = trim raw \<and>
   content (parseResponse raw ''review'') = trim raw \<and>
   ((\<forall>l\<in>set (split_nl (trim raw)). is_bullet_line l \<longrightarrow> startsWith l ''-'' \<or> startsWith l ''*'') \<longrightarrow>
      suggestions (parseResponse raw ''review'') =
        (let marked = filter (\<lambda>l. startsWith l ''-'' \<or> startsWith l ''*'') (split_nl (trim raw))
         in if marked = [] then None else Some (map (\<lambda>l. trim (tl l)) marked))) \<and>
   suggestions (parseResponse ''- fix null check\<newline>* add test'' ''review'')
     = Some [''fix null check'', ''add test'']"
proof -
  have ex: "suggestions (parseResponse ''- fix null check\<newline>* add test'' ''review'')
     = Some [''fix null check'', ''add test'']"
    by code_simp
  have rv: "suggestions (parseResponse raw ''review'') =
        (let marked = filter (\<lambda>l. startsWith l ''-'' \<or> startsWith l ''*'') (split_nl (trim raw))
         in if marked = [] then None else Some (map (\<lambda>l. trim (tl l)) marked))"
    if h: "\<forall>l\<in>set (split_nl (trim raw)). is_bullet_line l \<longrightarrow> startsWith l ''-'' \<or> startsWith l ''*''"
  proof -
    have "suggestions (parseResponse raw ''review'') =
            (let sugg = map (\<lambda>line. trim (strip_marker line)) (filter is_bullet_line (split_nl (trim raw)))
             in if sugg = [] then None else Some sugg)"
      by (simp add: parseResponse_def Let_def)
    then show ?thesis
      by (simp add: review_suggestions_plain [OF h] Let_def)
  qed
  have co: "content (parseResponse raw ''commit'') = takeWhile (\<lambda>c. c \<noteq> CHR 0x0A) (trim raw)"
    by (simp add: parseResponse_def Let_def hd_split_nl)
  have iss: "content (parseResponse raw ''issue'') = strip_quotes (takeWhile (\<lambda>c. c \<noteq> CHR 0x0A) (trim raw))"
    by (simp add: parseResponse_def Let_def hd_split_nl)
  have pr: "content (parseResponse raw ''pr'') = trim raw"
    by (simp add: parseResponse_def Let_def)
  have re: "content (parseResponse raw ''review'') = trim raw"
    by (simp add: parseResponse_def Let_def)
  from co iss pr re rv ex show ?thesis by blast
qed

theorem parseResponse_by_intent_witness:
  "content (parseResponse ''  feat: add parser\<newline>\<newline>details '' ''commit'') = ''feat: add parser'' \<and>
   content (parseResponse ''\"Crash on empty input\"\<newline>more'' ''issue'') = ''Crash on empty input'' \<and>
   content (parseResponse ''Summary\<newline>line two\<newline>'' ''pr'') = ''Summary\<newline>line two'' \<and>
   suggestions (parseResponse ''Looks fine.\<newline>- fix null check\<newline>* add test'' ''review'')
     = Some [''fix null check'', ''add test'']"
proof -
  have t1: "trim ''  feat: add parser\<newline>\<newline>details '' = ''feat: add parser\<newline>\<newline>details''" by code_simp
  have t2: "trim ''\"Crash on empty input\"\<newline>more'' = ''\"Crash on empty input\"\<newline>more''" by code_simp
  have t3: "trim ''Summary\<newline>line two\<newline>'' = ''Summary\<newline>line two''" by code_simp
  have t4: "trim ''Looks fine.\<newline>- fix null check\<newline>* add test'' = ''Looks fine.\<newline>- fix null check\<newline>* add test''" by code_simp
  have s4: "split_nl ''Looks fine.\<newline>- fix null check\<newline>* add test'' = [''Looks fine.'', ''- fix null check'', ''* add test'']" by code_simp
  have b: "\<not> is_bullet_line ''Looks fine.''" by code_simp
  have q: "strip_quotes ''\"Crash on empty input\"'' = ''Crash on empty input''" by code_simp
  have r1: "trim (tl ''- fix null check'') = ''fix null check''" by code_simp
  have r2: "trim (tl ''* add test'') = ''add test''" by code_simp
  have h: "\<forall>l\<in>set (split_nl (trim ''Looks fine.\<newline>- fix null check\<newline>* add test'')). is_bullet_line l \<longrightarrow> startsWith l ''-'' \<or> startsWith l ''*''"
    unfolding t4 s4 using b by (simp add: startsWith_def)
  from parseResponse_by_intent [of "''  feat: add parser\<newline>\<newline>details ''"]
  have a1: "content (parseResponse ''  feat: add parser\<newline>\<newline>details '' ''commit'') = ''feat: add parser''"
    unfolding t1 by simp
  from parseResponse_by_intent [of "''\"Crash on empty input\"\<newline>more''"]
  have a2: "content (parseResponse ''\"Crash on empty input\"\<newline>more'' ''issue'') = ''Crash on empty input''"
    unfolding t2 using q by simp
  from parseResponse_by_intent [of "''Summary\<newline>line two\<newline>''"]
  have a3: "content (parseResponse ''Summary\<newline>line two\<newline>'' ''pr'') = ''Summary\<newline>line two''"
    unfolding t3 by simp
  from parseResponse_by_intent [of "''Looks fine.\<newline>- fix null check\<newline>* add test''"] h
  have "suggestions (parseResponse ''Looks fine.\<newline>- fix null check\<newline>* add test'' ''review'') =
        (let marked = filter (\<lambda>l. startsWith l ''-'' \<or> startsWith l ''*'') (split_nl (trim ''Looks fine.\<newline>- fix null check\<newline>* add test''))
         in if marked = [] then None else Some (map (\<lambda>l. trim (tl l)) marked))"
    by blast
  then have a4: "suggestions (parseResponse ''Looks fine.\<newline>- fix null check\<newline>* add test'' ''review'')
     = Some [''fix null check'', ''add test'']"
    unfolding t4 s4 using r1 r2 by (simp add: startsWith_def Let_def)
  from a1 a2 a3 a4 show ?thesis by simp
qed

text \<open>
  Claim C4, as stated, fails for the pr intent: the response is trimmed, not passed
  through unmodified.
\<close>

theorem pr_response_trimmed_counterexample:
  "content (parseResponse '' Adds the parser.\<newline>'' ''pr'') = ''Adds the parser.'' \<and>
   content (parseResponse '' Adds the parser.\<newline>'' ''pr'') \<noteq> '' Adds the parser.\<newline>''"
  by code_simp

text \<open>
  A bullet line that is indented is selected, since the selection trims the line, but its
  marker is not at the start of the line and stays.
\<close>

lemma indented_bullet_keeps_marker:
  "parseResponse ''Review:\<newline>  - fix null check'' ''review'' =
     \<lparr>content = ''Review:\<newline>  - fix null check'', confidence = 75 / 100,
      suggestions = Some [''- fix null check'']\<rparr>"
  by code_simp

lemma generateWithOpenAI_success:
  "generateWithOpenAI cfg reply input type title = (reqs, Inr r) \<Longrightarrow>
     r = parseResponse (reply_text reply) type \<and> length reqs = 1"
  by (auto simp: generateWithOpenAI_def reply_text_def Let_def
           split: sum.splits backend_reply.splits option.splits)

lemma generateWithAnthropic_success:
  "generateWithAnthropic cfg reply input type title = (reqs, Inr r) \<Longrightarrow>
     r = parseResponse (reply_text reply) type \<and> length reqs = 1"
  by (auto simp: generateWithAnthropic_def reply_text_def Let_def
           split: sum.splits backend_reply.splits option.splits)

lemma generateCommitMessage_success:
  "generateCommitMessage cfg reply d = (reqs, Inr r) \<Longrightarrow> r = parseResponse (reply_text reply) ''commit''"
  by (auto simp: generateCommitMessage_def Let_def split: if_splits
           dest: generateWithOpenAI_success generateWithAnthropic_success)

lemma generatePRDescription_success:
  "generatePRDescription cfg reply t d = (reqs, Inr r) \<Longrightarrow> r = parseResponse (reply_text reply) ''pr''"
  by (auto simp: generatePRDescription_def Let_def split: if_splits
           dest: generateWithOpenAI_success generateWithAnthropic_success)

lemma reviewCode_success:
  "reviewCode cfg reply d = (reqs, Inr r) \<Longrightarrow> r = parseResponse (reply_text reply) ''review''"
  by (auto simp: reviewCode_def Let_def split: if_splits
           dest: generateWithOpenAI_success generateWithAnthropic_success)

lemma generateIssueTitle_success:
  "generateIssueTitle cfg reply d = (reqs, Inr r) \<Longrightarrow> r = parseResponse (reply_text reply) ''issue''"
  by (auto simp: generateIssueTitle_def Let_def split: if_splits
           dest: generateWithOpenAI_success generateWithAnthropic_success)

lemma content_commit_Nil_iff:
  "content (parseResponse raw ''commit'') = [] \<longleftrightarrow> (\<forall>c\<in>set raw. is_space c)"
  using first_line_Nil_iff [of raw] by (simp add: parseResponse_def Let_def)

lemma content_whole_Nil_iff:
  "type = ''pr'' \<or> type = ''review'' \<Longrightarrow>
     content (parseResponse raw type) = [] \<longleftrightarrow> (\<forall>c\<in>set raw. is_space c)"
  using trim_Nil_iff [of raw] by (auto simp: parseResponse_def Let_def)

lemma content_issue_Nil_iff:
  "content (parseResponse raw ''issue'') = [] \<longleftrightarrow>
     (length (takeWhile (\<lambda>c. c \<noteq> CHR 0x0A) (trim raw)) \<le> 2 \<and>
      (\<forall>c\<in>set (takeWhile (\<lambda>c. c \<noteq> CHR 0x0A) (trim raw)). is_quote c))"
  by (simp add: parseResponse_def Let_def hd_split_nl strip_quotes_Nil_iff)

text \<open>
  Claim C7, as stated, fails: a backend reply whose text is empty makes the operation
  return successfully with an empty primary text.
\<close>

theorem empty_primary_text_counterexample:
  "snd (generateCommitMessage (defaults(''aiApiKey'' \<mapsto> VStr ''sk-test'')) (Reply (Some []))
          ''diff --git a/x b/x'')
     = Inr \<lparr>content = [], confidence = 8 / 10, suggestions = None\<rparr>"
  by (simp add: generateCommitMessage_def getProvider_def defaults_def generateWithOpenAI_def
        getApiKey_def parseResponse_def trim_def Let_def)

text \<open>
  Claim C7, amended.  A generation operation that returns successfully may return an
  empty primary text.  For the commit, pr and review intents the primary text is non-empty
  exactly when the backend's text has a character that is not white space; for the issue
  intent exactly when the first line of the trimmed text has more than two characters or
  has a character that is not a quote character.
\<close>

theorem primary_text_nonempty_iff:
  "(generateCommitMessage cfg reply d = (reqs, Inr r) \<longrightarrow>
      (content r \<noteq> [] \<longleftrightarrow> (\<exists>c\<in>set (reply_text reply). \<not> is_space c))) \<and>
   (generatePRDescription cfg reply t d = (reqs, Inr r) \<longrightarrow>
      (content r \<noteq> [] \<longleftrightarrow> (\<exists>c\<in>set (reply_text reply). \<not> is_space c))) \<and>
   (reviewCode cfg reply d = (reqs, Inr r) \<longrightarrow>
      (content r \<noteq> [] \<longleftrightarrow> (\<exists>c\<in>set (reply_text reply). \<not> is_space c))) \<and>
   (generateIssueTitle cfg reply d = (reqs, Inr r) \<longrightarrow>
      (content r \<noteq> [] \<longleftrightarrow>
         (2 < length (takeWhile (\<lambda>c. c \<noteq> CHR 0x0A) (trim (reply_text reply))) \<or>
          (\<exists>c\<in>set (takeWhile (\<lambda>c. c \<noteq> CHR 0x0A) (trim (reply_text reply))). \<not> is_quote c))))"
proof (intro conjI impI)
  assume "generateCommitMessage cfg reply d = (reqs, Inr r)"
  then have "r = parseResponse (reply_text reply) ''commit''" by (rule generateCommitMessage_success)
  then show "content r \<noteq> [] \<longleftrightarrow> (\<exists>c\<in>set (reply_text reply). \<not> is_space c)"
    using content_commit_Nil_iff [of "reply_text reply"] by blast
next
  assume "generatePRDescription cfg reply t d = (reqs, Inr r)"
  then have "r = parseResponse (reply_text reply) ''pr''" by (rule generatePRDescription_success)
  then show "content r \<noteq> [] \<longleftrightarrow> (\<exists>c\<in>set (reply_text reply). \<not> is_space c)"
    using content_whole_Nil_iff [of "''pr''" "reply_text reply"] by blast
next
  assume "reviewCode cfg reply d = (reqs, Inr r)"
  then have "r = parseResponse (reply_text reply) ''review''" by (rule reviewCode_success)
  then show "content r \<noteq> [] \<longleftrightarrow> (\<exists>c\<in>set (reply_text reply). \<not> is_space c)"
    using content_whole_Nil_iff [of "''review''" "reply_text reply"] by blast
next
  assume "generateIssueTitle cfg reply d = (reqs, Inr r)"
  then have "r = parseResponse (reply_text reply) ''issue''" by (rule generateIssueTitle_success)
  then show "content r \<noteq> [] \<longleftrightarrow>
         (2 < length (takeWhile (\<lambda>c. c \<noteq> CHR 0x0A) (trim (reply_text reply))) \<or>
          (\<exists>c\<in>set (takeWhile (\<lambda>c. c \<noteq> CHR 0x0A) (trim (reply_text reply))). \<not> is_quote c))"
    using content_issue_Nil_iff [of "reply_text reply"] by (auto simp: not_le)
qed

theorem primary_text_nonempty_iff_witness:
  "\<exists>reqs r. generateCommitMessage (defaults(''aiApiKey'' \<mapsto> VStr ''sk-test'')) (Reply (Some ''feat: add parser''))
        ''diff --git a/x b/x'' = (reqs, Inr r) \<and> content r \<noteq> []"
proof -
  obtain reqs r where g: "generateCommitMessage (defaults(''aiApiKey'' \<mapsto> VStr ''sk-test''))
        (Reply (Some ''feat: add parser'')) ''diff --git a/x b/x'' = (reqs, Inr r)"
    by (simp add: generateCommitMessage_def getProvider_def defaults_def generateWithOpenAI_def
        getApiKey_def Let_def)
  have "\<exists>c\<in>set (reply_text (Reply (Some ''feat: add parser''))). \<not> is_space c"
    by (simp add: reply_text_def is_space_def)
  with primary_text_nonempty_iff [of "defaults(''aiApiKey'' \<mapsto> VStr ''sk-test'')"
        "Reply (Some ''feat: add parser'')" "''diff --git a/x b/x''" reqs r] g
  have "content r \<noteq> []" by blast
  with g show ?thesis by blast
qed

text \<open>
  Claim C5, as stated, fails: with no provider configured the operation falls back to
  the \<open>openai\<close> backend and, a credential being configured, posts a request to it.
\<close>

theorem unconfigured_provider_counterexample:
  "[''aiApiKey'' \<mapsto> VStr ''sk-test''] ''aiProvider'' = None \<and>
   map endpoint (fst (generateCommitMessage [''aiApiKey'' \<mapsto> VStr ''sk-test'']
        (Reply (Some ''feat: add parser'')) ''diff --git a/x b/x''))
     = [''https://api.openai.com/v1/chat/completions''] \<and>
   snd (generateCommitMessage [''aiApiKey'' \<mapsto> VStr ''sk-test'']
        (Reply (Some ''feat: add parser'')) ''diff --git a/x b/x'')
     = Inr \<lparr>content = ''feat: add parser'', confidence = 8 / 10, suggestions = None\<rparr>"
proof -
  have t: "trim ''feat: add parser'' = ''feat: add parser''" by code_simp
  show ?thesis
    by (simp add: generateCommitMessage_def getProvider_def generateWithOpenAI_def
        getApiKey_def parseResponse_def t Let_def)
qed

text \<open>
  Claim C5, amended.  For every generation intent, if the configured provider is
  \<open>local\<close> or any other value that is set (truthy) and is neither \<open>openai\<close> nor
  \<open>anthropic\<close>, the operation fails fast with a provider-not-supported error and posts no
  request.  An unconfigured provider selects the \<open>openai\<close> backend.  With no generation
  credential configured, every intent fails with a configuration error and posts no
  request, whatever the provider.
\<close>

theorem unsupported_provider_fails_fast:
  "(getProvider cfg \<noteq> VStr ''openai'' \<and> getProvider cfg \<noteq> VStr ''anthropic'' \<longrightarrow>
      generateCommitMessage cfg reply d = ([], Inl (Provider_not_supported (getProvider cfg))) \<and>
      generatePRDescription cfg reply t d = ([], Inl (Provider_not_supported (getProvider cfg))) \<and>
      reviewCode cfg reply d = ([], Inl (Provider_not_supported (getProvider cfg))) \<and>
      generateIssueTitle cfg reply d = ([], Inl (Provider_not_supported (getProvider cfg)))) \<and>
   (cfg ''aiProvider'' = Some (VStr ''local'') \<longrightarrow> getProvider cfg = VStr ''local'') \<and>
   (cfg ''aiProvider'' = None \<longrightarrow> getProvider cfg = VStr ''openai'') \<and>
   (\<not> truthy (cfg ''aiApiKey'') \<longrightarrow>
      fst (generateCommitMessage cfg reply d) = [] \<and> isl (snd (generateCommitMessage cfg reply d)) \<and>
      fst (generatePRDescription cfg reply t d) = [] \<and> isl (snd (generatePRDescription cfg reply t d)) \<and>
      fst (reviewCode cfg reply d) = [] \<and> isl (snd (reviewCode cfg reply d)) \<and>
      fst (generateIssueTitle cfg reply d) = [] \<and> isl (snd (generateIssueTitle cfg reply d)))"
proof -
  have k: "getApiKey cfg = Inl Api_key_not_configured" if "\<not> truthy (cfg ''aiApiKey'')"
    using that by (auto simp: getApiKey_def split: option.splits)
  show ?thesis
    by (auto simp: generateCommitMessage_def generatePRDescription_def reviewCode_def
          generateIssueTitle_def getProvider_def generateWithOpenAI_def generateWithAnthropic_def
          k Let_def split: option.splits)
qed

theorem unsupported_provider_fails_fast_witness:
  "generateCommitMessage (defaults(''aiProvider'' \<mapsto> VStr ''local'', ''aiApiKey'' \<mapsto> VStr ''sk-test''))
       (Reply (Some ''feat: add parser'')) ''diff --git a/x b/x''
     = ([], Inl (Provider_not_supported (VStr ''local''))) \<and>
   fst (reviewCode defaults (Reply (Some ''- fix'')) ''diff --git a/x b/x'') = []"
proof -
  let ?c = "defaults(''aiProvider'' \<mapsto> VStr ''local'', ''aiApiKey'' \<mapsto> VStr ''sk-test'')"
  have p: "getProvider ?c = VStr ''local''" by (simp add: getProvider_def)
  have n: "\<not> truthy (defaults ''aiApiKey'')" by (simp add: defaults_def)
  from unsupported_provider_fails_fast [of ?c "Reply (Some ''feat: add parser'')" "''diff --git a/x b/x''" "''t''"] p
  have a: "generateCommitMessage ?c (Reply (Some ''feat: add parser'')) ''diff --git a/x b/x''
     = ([], Inl (Provider_not_supported (VStr ''local'')))" by simp
  from unsupported_provider_fails_fast [of defaults "Reply (Some ''- fix'')" "''diff --git a/x b/x''" "''t''"] n
  have b: "fst (reviewCode defaults (Reply (Some ''- fix'')) ''diff --git a/x b/x'') = []" by blast
  from a b show ?thesis by simp
qed

section \<open>Properties of the commands\<close>

subsection \<open>The remote URL pattern\<close>

text \<open>
  The matcher agrees with the language of the pattern: what follows \<open>github.com\<close>
  matches with owner \<open>ow\<close> and repository \<open>rp\<close> exactly when it is a slash or colon,
  \<open>ow\<close>, a slash, \<open>rp\<close> and an optional \<open>.git\<close>, where \<open>ow\<close> is not empty and has
  no slash, and \<open>rp\<close> is not empty and has neither slash nor dot.
\<close>

lemma startsWith_iff: "startsWith s p \<longleftrightarrow> (\<exists>t. s = p @ t)"
proof
  assume "startsWith s p"
  then have "s = p @ drop (length p) s"
    unfolding startsWith_def by (metis append_take_drop_id)
  then show "\<exists>t. s = p @ t" ..
next
  assume "\<exists>t. s = p @ t"
  then show "startsWith s p" by (auto simp: startsWith_def)
qed

lemma match_after_host_complete:
  assumes c: "c = CHR ''/'' \<or> c = CHR '':''"
    and ow: "ow \<noteq> []" "CHR ''/'' \<notin> set ow"
    and rp: "rp \<noteq> []" "\<forall>x\<in>set rp. x \<noteq> CHR ''/'' \<and> x \<noteq> CHR ''.''"
    and suf: "suf = [] \<or> suf = ''.git''"
  shows "match_after_host (c # ow @ ''/'' @ rp @ suf) = Some (ow, rp)"
proof -
  let ?P = "\<lambda>x. x \<noteq> CHR ''/''"
  let ?Q = "\<lambda>x. x \<noteq> CHR ''/'' \<and> x \<noteq> CHR ''.''"
  from ow have p: "\<And>x. x \<in> set ow \<Longrightarrow> ?P x" by auto
  have t1: "takeWhile ?P (ow @ CHR ''/'' # rp @ suf) = ow"
    using takeWhile_append2 [of ow ?P "CHR ''/'' # rp @ suf", OF p] by simp
  have d1: "dropWhile ?P (ow @ CHR ''/'' # rp @ suf) = CHR ''/'' # rp @ suf"
    using dropWhile_append2 [of ow ?P "CHR ''/'' # rp @ suf", OF p] by simp
  from rp have q: "\<And>x. x \<in> set rp \<Longrightarrow> ?Q x" by auto
  from suf have s: "takeWhile ?Q suf = [] \<and> dropWhile ?Q suf = suf" by auto
  have t2: "takeWhile ?Q (rp @ suf) = rp"
    using takeWhile_append2 [of rp ?Q suf, OF q] s by simp
  have d2: "dropWhile ?Q (rp @ suf) = suf"
    using dropWhile_append2 [of rp ?Q suf, OF q] s by simp
  have "match_after_host (c # ow @ CHR ''/'' # rp @ suf) = Some (ow, rp)"
    unfolding match_after_host_def list.case Let_def t1 d1 list.sel t2 d2
    using c ow(1) rp(1) suf by auto
  then show ?thesis by simp
qed

lemma match_after_host_sound:
  assumes "match_after_host t = Some (ow, rp)"
  shows "\<exists>c suf. t = c # ow @ ''/'' @ rp @ suf \<and> (c = CHR ''/'' \<or> c = CHR '':'') \<and>
           ow \<noteq> [] \<and> CHR ''/'' \<notin> set ow \<and> rp \<noteq> [] \<and>
           (\<forall>x\<in>set rp. x \<noteq> CHR ''/'' \<and> x \<noteq> CHR ''.'') \<and> (suf = [] \<or> suf = ''.git'')"
proof -
  let ?P = "\<lambda>x. x \<noteq> CHR ''/''"
  let ?Q = "\<lambda>x. x \<noteq> CHR ''/'' \<and> x \<noteq> CHR ''.''"
  from assms obtain c r where t: "t = c # r" and c: "c = CHR ''/'' \<or> c = CHR '':''"
    by (cases t) (auto simp: match_after_host_def split: if_splits)
  let ?r1 = "dropWhile ?P r"
  let ?r2 = "dropWhile ?Q (tl ?r1)"
  from assms t c have ow: "ow = takeWhile ?P r" and ne: "ow \<noteq> []" and r1: "?r1 \<noteq> []"
    and rp: "rp = takeWhile ?Q (tl ?r1)" and rne: "rp \<noteq> []" and r2: "?r2 = [] \<or> ?r2 = ''.git''"
    by (auto simp: match_after_host_def Let_def split: if_splits)
  from r1 have "\<not> ?P (hd ?r1)" by (rule hd_dropWhile)
  with r1 have h: "?r1 = CHR ''/'' # tl ?r1" by (cases ?r1) auto
  have "r = takeWhile ?P r @ ?r1" by simp
  also have "\<dots> = ow @ CHR ''/'' # tl ?r1" using ow h by simp
  also have "tl ?r1 = rp @ ?r2" using rp by simp
  finally have "t = c # ow @ ''/'' @ rp @ ?r2" using t by simp
  moreover have "CHR ''/'' \<notin> set ow" using ow by (auto dest: set_takeWhileD)
  moreover have "\<forall>x\<in>set rp. ?Q x" using rp by (auto dest: set_takeWhileD)
  ultimately show ?thesis using c ne rne r2 by blast
qed

lemma match_remote_sound:
  "match_remote u = Some m \<Longrightarrow> \<exists>pre t. u = pre @ ''github.com'' @ t \<and> match_after_host t = Some m"
proof (induction u)
  case Nil
  then show ?case by simp
next
  case (Cons c cs)
  show ?case
  proof (cases "startsWith (c # cs) ''github.com'' \<and> match_after_host (drop 10 (c # cs)) \<noteq> None")
    case True
    then obtain t where t: "c # cs = ''github.com'' @ t" by (auto simp: startsWith_iff)
    then have "drop 10 (c # cs) = t" by simp
    with True Cons.prems have "match_after_host t = Some m" by auto
    with t have "c # cs = [] @ ''github.com'' @ t \<and> match_after_host t = Some m" by simp
    then show ?thesis by blast
  next
    case False
    with Cons.prems have "match_remote cs = Some m" by (auto split: if_splits option.splits)
    with Cons.IH obtain pre t where "cs = pre @ ''github.com'' @ t" "match_after_host t = Some m"
      by blast
    then have "c # cs = (c # pre) @ ''github.com'' @ t \<and> match_after_host t = Some m" by simp
    then show ?thesis by blast
  qed
qed

lemma match_remote_None_iff:
  "match_remote u = None \<longleftrightarrow> (\<forall>pre t. u = pre @ ''github.com'' @ t \<longrightarrow> match_after_host t = None)"
proof (induction u)
  case Nil
  then show ?case by simp
next
  case (Cons c cs)
  show ?case
  proof
    assume n: "match_remote (c # cs) = None"
    then have tl_none: "match_remote cs = None" by (auto split: if_splits option.splits)
    show "\<forall>pre t. c # cs = pre @ ''github.com'' @ t \<longrightarrow> match_after_host t = None"
    proof (intro allI impI)
      fix pre t
      assume d: "c # cs = pre @ ''github.com'' @ t"
      show "match_after_host t = None"
      proof (cases pre)
        case Nil
        with d have "startsWith (c # cs) ''github.com''" "drop 10 (c # cs) = t"
          by (auto simp: startsWith_iff)
        with n show ?thesis by (auto split: option.splits)
      next
        case (Cons p pre')
        with d have "cs = pre' @ ''github.com'' @ t" by simp
        with tl_none Cons.IH show ?thesis by blast
      qed
    qed
  next
    assume a: "\<forall>pre t. c # cs = pre @ ''github.com'' @ t \<longrightarrow> match_after_host t = None"
    have "\<forall>pre t. cs = pre @ ''github.com'' @ t \<longrightarrow> match_after_host t = None"
    proof (intro allI impI)
      fix pre t
      assume "cs = pre @ ''github.com'' @ t"
      then have "c # cs = (c # pre) @ ''github.com'' @ t" by simp
      with a show "match_after_host t = None" by blast
    qed
    with Cons.IH have tl_none: "match_remote cs = None" by blast
    show "match_remote (c # cs) = None"
    proof (cases "startsWith (c # cs) ''github.com''")
      case True
      then obtain t where t: "c # cs = ''github.com'' @ t" by (auto simp: startsWith_iff)
      then have dr: "drop 10 (c # cs) = t" by simp
      from t have "c # cs = [] @ ''github.com'' @ t" by simp
      with a have "match_after_host t = None" by blast
      with True dr tl_none show ?thesis by simp
    next
      case False
      with tl_none show ?thesis by simp
    qed
  qed
qed

subsection \<open>pr and issue\<close>

text \<open>
  Claim C3.  The remote URL \<open>https://github.com/acme/widgets.git\<close> parses to the owner
  \<open>acme\<close> and the repository \<open>widgets\<close>.  For every \<open>pr\<close> or \<open>issue\<close> invocation
  whose remote URL does not match the pattern, the command prints an error and exits with
  status 1 without calling a handler: what it does is the same for every handler, and no
  call of the hosting service is among its effects.  A handler runs only with the owner
  and repository parsed from the URL.
\<close>

theorem unparsable_remote_fails_before_hosting:
  "match_remote ''https://github.com/acme/widgets.git'' = Some (''acme'', ''widgets'') \<and>
   (getRemoteUrl (eng_remotes g) ''origin'' = Inr (Some url) \<and> match_remote url = None \<longrightarrow>
      prCommand g action h =
        (if \<not> isRepository (eng_revparse g) then [Console_error ''Not a git repository'', Process_exit 1]
         else if url = [] then [Console_error ''No remote repository configured'', Process_exit 1]
         else [Console_error ''Invalid GitHub repository URL'', Process_exit 1]) \<and>
      issueCommand g action h =
        (if \<not> isRepository (eng_revparse g) then [Console_error ''Not a git repository'', Process_exit 1]
         else if url = [] then [Console_error ''No remote repository configured'', Process_exit 1]
         else [Console_error ''Invalid GitHub repository URL'', Process_exit 1]) \<and>
      (\<forall>op ow rp. Hosting_call op ow rp \<notin> set (prCommand g action h)) \<and>
      (\<forall>op ow rp. Hosting_call op ow rp \<notin> set (issueCommand g action h)) \<and>
      last (prCommand g action h) = Process_exit 1 \<and>
      last (issueCommand g action h) = Process_exit 1) \<and>
   (isRepository (eng_revparse g) \<and> getRemoteUrl (eng_remotes g) ''origin'' = Inr (Some url) \<and>
    match_remote url = Some (ow, rp) \<and> action = ''list'' \<longrightarrow>
      prCommand g action h = h action ow rp \<and> issueCommand g action h = h action ow rp)"
proof -
  have ex: "match_remote ''https://github.com/acme/widgets.git'' = Some (''acme'', ''widgets'')"
    by (simp add: startsWith_def match_after_host_def)
  have m: "url \<noteq> []" if "match_remote url = Some (ow, rp)"
    using that by (cases url) auto
  show ?thesis
    using ex m by (auto simp: prCommand_def issueCommand_def absent_def)
qed

theorem unparsable_remote_fails_before_hosting_witness:
  "prCommand \<lparr>eng_revparse = Inr ''.git'',
              eng_remotes = Inr [\<lparr>remote_name = ''origin'', refs_fetch = ''https://gitlab.com/acme/widgets.git'',
                                   refs_push = ''https://gitlab.com/acme/widgets.git''\<rparr>],
              eng_status = Inl (Error ''unused''), eng_branch_current = Inr (Some ''main''),
              eng_diff = Inr [], eng_diff_files = Inr [], eng_add = Inr (), eng_commit = Inr None\<rparr>
      ''list'' (\<lambda>action owner repo. [Hosting_call ''getPullRequests'' owner repo])
     = [Console_error ''Invalid GitHub repository URL'', Process_exit 1]"
proof -
  let ?g = "\<lparr>eng_revparse = Inr ''.git'',
              eng_remotes = Inr [\<lparr>remote_name = ''origin'', refs_fetch = ''https://gitlab.com/acme/widgets.git'',
                                   refs_push = ''https://gitlab.com/acme/widgets.git''\<rparr>],
              eng_status = Inl (Error ''unused''), eng_branch_current = Inr (Some ''main''),
              eng_diff = Inr [], eng_diff_files = Inr [], eng_add = Inr (), eng_commit = Inr None\<rparr>"
  have r: "getRemoteUrl (eng_remotes ?g) ''origin'' = Inr (Some ''https://gitlab.com/acme/widgets.git'')"
    by (simp add: getRemoteUrl_def)
  have n: "match_remote ''https://gitlab.com/acme/widgets.git'' = None"
    by (simp add: startsWith_def)
  have i: "isRepository (eng_revparse ?g)" by (simp add: isRepository_def)
  from unparsable_remote_fails_before_hosting
         [of ?g "''https://gitlab.com/acme/widgets.git''" "''list''"
             "\<lambda>action owner repo. [Hosting_call ''getPullRequests'' owner repo]"] r n i
  show ?thesis by simp
qed

subsection \<open>The commands that generate from a diff\<close>

text \<open>
  With an empty diff, \<open>commit --ai\<close>, \<open>ai commit\<close> and \<open>ai review\<close> stop with a
  warning and post no generation request.
\<close>

lemma commitCommand_empty_diff:
  assumes "isRepository (eng_revparse g)" "eng_diff g = Inr d" "trim d = []"
    and "absent (co_message options)" "co_ai options"
    and "co_all options \<longrightarrow> eng_add g = Inr ()"
  shows "commitCommand g cfg reply options ans =
           (if co_all options then [Git_add ''.'', Spinner_succeed ''Files staged''] else [])
             @ [Spinner_warn ''No changes to commit'']"
  using assms by (simp add: commitCommand_def getDiff_def Let_def)

lemma create_commit_no_request: "Generation_request q \<notin> set (create_commit g m)"
  by (auto simp: create_commit_def split: sum.splits)

lemma commitCommand_empty_diff_no_request:
  assumes "eng_diff g = Inr d" "trim d = []"
  shows "Generation_request q \<notin> set (commitCommand g cfg reply options ans)"
  using assms create_commit_no_request
  by (auto simp: commitCommand_def getDiff_def Let_def split: sum.splits)

lemma ai_generateCommitMessage_empty_diff:
  "eng_diff g = Inr d \<Longrightarrow> trim d = [] \<Longrightarrow>
     ai_generateCommitMessage g cfg reply useMessage = [Spinner_warn ''No changes to analyze'']"
  by (simp add: ai_generateCommitMessage_def getDiff_def)

lemma ai_reviewCode_empty_diff:
  assumes "eng_diff g = Inr d" "trim d = []" "eng_diff_files g = Inr d'" "trim d' = []"
  shows "Generation_request q \<notin> set (ai_reviewCode g cfg reply options)"
    and "eng_status g = Inr st \<Longrightarrow>
         ai_reviewCode g cfg reply options = [Spinner_warn ''No code changes to review''] \<or>
         ai_reviewCode g cfg reply options = [Spinner_warn ''No staged changes to review'']"
  using assms
  by (auto simp: ai_reviewCode_def getDiff_def Let_def status_def split: sum.splits)

lemma aiCommand_empty_diff_no_request:
  assumes "eng_diff g = Inr d" "trim d = []" "eng_diff_files g = Inr d'" "trim d' = []"
    and "action = ''commit'' \<or> action = ''review''"
  shows "Generation_request q \<notin> set (aiCommand g cfg reply action options useMessage summary)"
  using assms ai_reviewCode_empty_diff(1) [OF assms(1-4)] ai_generateCommitMessage_empty_diff [OF assms(1,2)]
  by (auto simp: aiCommand_def)

text \<open>
  Claim C6, evaluated where the code departs from it.  \<open>pr create --ai\<close> with a title
  and no body, on a branch other than the base, with an empty diff: \<open>createPR\<close> does not
  test the diff and posts a generation request for it before it creates the pull request.
\<close>

theorem createPR_empty_diff_posts_request:
  "createPR \<lparr>eng_revparse = Inr ''.git'', eng_remotes = Inr [], eng_status = Inl (Error ''unused''),
             eng_branch_current = Inr (Some ''feature/x''), eng_diff = Inr [], eng_diff_files = Inr [],
             eng_add = Inr (), eng_commit = Inr None\<rparr>
     (defaults(''aiApiKey'' \<mapsto> VStr ''sk-test'')) (Reply (Some ''Adds x.''))
     (Inr ''https://github.com/acme/widgets/pull/1'') ''acme'' ''widgets''
     \<lparr>po_title = Some ''Add x'', po_body = None, po_base = Some ''main'', po_draft = False,
      po_ai = True, po_open = False\<rparr>
     \<lparr>inputTitle = [], confirmed = True, customBody = [], inputBody = []\<rparr>
   = [Generation_request
        \<lparr>endpoint = ''https://api.openai.com/v1/chat/completions'', credential = VStr ''sk-test'',
         model = ''gpt-3.5-turbo'',
         messages = [(''system'', getSystemPrompt ''pr''),
                     (''user'', buildPrompt [] ''pr'' (Some ''Add x''))]\<rparr>,
      Spinner_succeed ''AI PR description generated'',
      Hosting_call ''createPullRequest'' ''acme'' ''widgets'',
      Spinner_succeed ''Pull request created successfully'']"
proof -
  have t: "trim ''Adds x.'' = ''Adds x.''" by code_simp
  have p: "getPathSegments ''autoOpenPr'' = [''autoOpenPr'']" by code_simp
  show ?thesis
    by (simp add: createPR_def getCurrentBranch_def absent_def getDiff_def generatePRDescription_def
          getProvider_def defaults_def generateWithOpenAI_def getApiKey_def parseResponse_def t
          getPathSegments_single [OF p] Let_def)
qed

end
